theory Spec2Isabelle
  imports Main
begin

section \<open>Values exchanged with ClickUp\<close>

text \<open>
  Tool parameters and API payloads are JSON. Fields whose shape the handlers never look
  into (columns, feature switches, a view's parent, creator and so on) are kept as JSON
  values; fields the handlers test or copy one by one are record fields, typed as the
  tool's input schema types them. An optional field is an \<open>option\<close>: \<open>None\<close> is
  JavaScript's \<open>undefined\<close>.
\<close>

datatype json =
    JNull
  | JBool bool
  | JNum int
  | JStr string
  | JArr "json list"
  | JObj "(string \<times> json) list"

text \<open>JavaScript truthiness, as \<open>if (x)\<close>, \<open>!x\<close> and \<open>x || y\<close> test it.\<close>

fun truthy :: "json \<Rightarrow> bool" where
  "truthy JNull = False"
| "truthy (JBool b) = b"
| "truthy (JNum n) = (n \<noteq> 0)"
| "truthy (JStr s) = (s \<noteq> [])"
| "truthy (JArr xs) = True"
| "truthy (JObj kvs) = True"

definition truthy_opt :: "json option \<Rightarrow> bool" where
  "truthy_opt x = (case x of None \<Rightarrow> False | Some j \<Rightarrow> truthy j)"

text \<open>An optional string is truthy when it is present and not empty.\<close>

definition truthy_str :: "string option \<Rightarrow> bool" where
  "truthy_str x = (case x of None \<Rightarrow> False | Some s \<Rightarrow> s \<noteq> [])"

text \<open>An optional number is truthy when it is present and not zero.\<close>

definition truthy_num :: "int option \<Rightarrow> bool" where
  "truthy_num x = (case x of None \<Rightarrow> False | Some n \<Rightarrow> n \<noteq> 0)"

text \<open>A string between double quotes, as the message templates write a name.\<close>

definition quoted :: "string \<Rightarrow> string" where
  "quoted s = [CHR 0x22] @ s @ [CHR 0x22]"

section \<open>Errors\<close>

text \<open>
  The handlers throw plain \<open>Error\<close> objects; the services throw \<open>ClickUpServiceError\<close>,
  which carries an error code. Only the codes the view service itself uses are named.
\<close>

datatype ErrorCode = UNKNOWN | INVALID_PARAMETER | OTHER_CODE string

datatype error = Error string | ClickUpServiceError string ErrorCode

fun message :: "error \<Rightarrow> string" where
  "message (Error m) = m"
| "message (ClickUpServiceError m c) = m"

fun is_ClickUpServiceError :: "error \<Rightarrow> bool" where
  "is_ClickUpServiceError (Error m) = False"
| "is_ClickUpServiceError (ClickUpServiceError m c) = True"

text \<open>\<open>ViewService.handleError\<close>: a service error passes through, anything else is wrapped.\<close>

definition handleError :: "error \<Rightarrow> string option \<Rightarrow> error" where
  "handleError e msg =
     (if is_ClickUpServiceError e then e
      else ClickUpServiceError
             (if truthy_str msg then the msg else ''View service error: '' @ message e)
             UNKNOWN)"

section \<open>Views\<close>

record ClickUpView =
  view_id :: string
  view_name :: string
  view_type :: string
  view_parent :: json
  view_details :: json

record Grouping =
  grouping_field :: string
  grouping_dir :: int

record FilterCondition =
  field :: "json option"
  operator :: "json option"
  "value" :: "json option"

record FiltersParam =
  filters_operator :: "string option"
  filters_conditions :: "FilterCondition list option"

record ApiFilter =
  filter_field :: "json option"
  filter_op :: "json option"
  filter_value :: "json option"

record ApiFilters =
  op :: string
  filters :: "ApiFilter list"

record SettingsParam =
  showTaskLocations :: "bool option"
  showSubtasks :: "int option"
  showAssignees :: "bool option"
  showImages :: "bool option"
  meMode :: "bool option"

record ApiSettings =
  show_task_locations :: "bool option"
  show_subtasks :: "int option"
  show_assignees :: "bool option"
  show_images :: "bool option"
  me_mode :: "bool option"

record ViewParent =
  parent_id :: string
  parent_type :: string

record CreateViewData =
  cv_name :: string
  cv_type :: string
  cv_parent :: ViewParent
  cv_grouping :: "Grouping option"
  cv_filters :: "ApiFilters option"
  cv_columns :: "json option"
  cv_settings :: "ApiSettings option"

record UpdateViewData =
  uv_name :: "string option"
  uv_grouping :: "Grouping option"
  uv_filters :: "ApiFilters option"
  uv_columns :: "json option"
  uv_settings :: "ApiSettings option"

section \<open>Spaces\<close>

record ClickUpSpace =
  space_id :: string
  space_name :: "string option"
  space_private :: "bool option"
  space_features :: "json option"

record DueDatesParam =
  dd_enabled :: "bool option"
  startDate :: "bool option"
  remapDueDates :: "bool option"
  remapClosedDueDate :: "bool option"

record FeaturesParam =
  dueDates :: "DueDatesParam option"
  timeTracking :: "json option"
  tags :: "json option"
  timeEstimates :: "json option"
  checklists :: "json option"
  customFields :: "json option"
  remapDependencies :: "json option"
  dependencyWarning :: "json option"
  portfolios :: "json option"

record ApiDueDates =
  enabled :: "bool option"
  start_date :: "bool option"
  remap_due_dates :: "bool option"
  remap_closed_due_date :: "bool option"

record ApiFeatures =
  due_dates :: "ApiDueDates option"
  time_tracking :: "json option"
  api_tags :: "json option"
  time_estimates :: "json option"
  api_checklists :: "json option"
  custom_fields :: "json option"
  remap_dependencies :: "json option"
  dependency_warning :: "json option"
  api_portfolios :: "json option"

record CreateSpaceData =
  cs_name :: string
  cs_multiple_assignees :: "bool option"
  cs_features :: "ApiFeatures option"

record UpdateSpaceData =
  us_name :: "string option"
  us_color :: "string option"
  us_private :: "bool option"
  us_admin_can_manage :: "bool option"
  us_multiple_assignees :: "bool option"
  us_features :: "ApiFeatures option"

section \<open>The remote system and the calls issued to it\<close>

text \<open>
  The view service sends its requests through \<open>makeRequest\<close> and an HTTP client, both
  inherited from the base service class, and the handlers call the workspace service;
  neither is part of the code verified here. A call on one of them is an entry of a
  log, in the order of issue, and its outcome is a parameter: a function of the calls
  issued before it and of the call itself. Any deterministic remote system, with any
  internal state, is such a function.
\<close>

datatype call =
    HttpGet string
  | HttpPost string CreateViewData
  | HttpPut string UpdateViewData
  | HttpDelete string
  | FindSpaceIDByName string
  | FindSpaceByName string
  | GetWorkspaceHierarchy
  | CreateSpace CreateSpaceData
  | UpdateSpace string UpdateSpaceData
  | GetSpace string
  | DeleteSpace string

record HierarchyInfo =
  info_id :: string

record ColorResult =
  background :: string

record env =
  clickupTeamId :: string
  teamId :: string
  views_reply :: "call list \<Rightarrow> string \<Rightarrow> error + ClickUpView list"
  view_reply :: "call list \<Rightarrow> call \<Rightarrow> error + ClickUpView"
  delete_reply :: "call list \<Rightarrow> string \<Rightarrow> error + unit"
  rethrown :: "error \<Rightarrow> error"
  findSpaceIDByName_reply :: "call list \<Rightarrow> string \<Rightarrow> error + string option"
  findSpaceByName_reply :: "call list \<Rightarrow> string \<Rightarrow> error + ClickUpSpace option"
  getWorkspaceHierarchy_reply :: "call list \<Rightarrow> error + json"
  findIDByNameInHierarchy :: "json \<Rightarrow> string \<Rightarrow> string \<Rightarrow> HierarchyInfo option"
  space_reply :: "call list \<Rightarrow> call \<Rightarrow> error + ClickUpSpace"
  deleteSpace_reply :: "call list \<Rightarrow> string \<Rightarrow> error + unit"
  processColorCommand :: "string \<Rightarrow> ColorResult option"

text \<open>
  An asynchronous function is a function of the log so far that returns the value it
  resolves to (\<open>Inr\<close>) or the exception it rejects with (\<open>Inl\<close>), and the log extended by
  the calls it issued.
\<close>

type_synonym 'a io = "call list \<Rightarrow> (error + 'a) \<times> call list"

definition io_return :: "'a \<Rightarrow> 'a io" where
  "io_return x = (\<lambda>log. (Inr x, log))"

definition io_throw :: "error \<Rightarrow> 'a io" where
  "io_throw e = (\<lambda>log. (Inl e, log))"

definition io_bind :: "'a io \<Rightarrow> ('a \<Rightarrow> 'b io) \<Rightarrow> 'b io" where
  "io_bind m f = (\<lambda>log. case m log of
                         (Inl e, log') \<Rightarrow> (Inl e, log')
                       | (Inr x, log') \<Rightarrow> f x log')"

definition io_catch :: "'a io \<Rightarrow> (error \<Rightarrow> 'a io) \<Rightarrow> 'a io" where
  "io_catch m h = (\<lambda>log. case m log of
                          (Inl e, log') \<Rightarrow> h e log'
                        | (Inr x, log') \<Rightarrow> (Inr x, log'))"

text \<open>One call: its outcome is read off the parameter, and the call is logged.\<close>

definition issue :: "call \<Rightarrow> (call list \<Rightarrow> error + 'a) \<Rightarrow> 'a io" where
  "issue c reply = (\<lambda>log. (reply log, log @ [c]))"

section \<open>The view service\<close>

definition getWorkspaceViews :: "env \<Rightarrow> ClickUpView list io" where
  "getWorkspaceViews E =
     io_catch
       (issue (HttpGet (''/team/'' @ teamId E @ ''/view''))
          (\<lambda>log. views_reply E log (''/team/'' @ teamId E @ ''/view'')))
       (\<lambda>e. io_throw (handleError e (Some ''Failed to get workspace views'')))"

definition getSpaceViews :: "env \<Rightarrow> string \<Rightarrow> ClickUpView list io" where
  "getSpaceViews E spaceId =
     io_catch
       (issue (HttpGet (''/space/'' @ spaceId @ ''/view''))
          (\<lambda>log. views_reply E log (''/space/'' @ spaceId @ ''/view'')))
       (\<lambda>e. io_throw (handleError e (Some ''Failed to get space views'')))"

definition getFolderViews :: "env \<Rightarrow> string \<Rightarrow> ClickUpView list io" where
  "getFolderViews E folderId =
     io_catch
       (issue (HttpGet (''/folder/'' @ folderId @ ''/view''))
          (\<lambda>log. views_reply E log (''/folder/'' @ folderId @ ''/view'')))
       (\<lambda>e. io_throw (handleError e (Some ''Failed to get folder views'')))"

definition getListViews :: "env \<Rightarrow> string \<Rightarrow> ClickUpView list io" where
  "getListViews E listId =
     io_catch
       (issue (HttpGet (''/list/'' @ listId @ ''/view''))
          (\<lambda>log. views_reply E log (''/list/'' @ listId @ ''/view'')))
       (\<lambda>e. io_throw (handleError e (Some ''Failed to get list views'')))"


definition getView :: "env \<Rightarrow> string \<Rightarrow> ClickUpView io" where
  "getView E viewId =
     io_catch
       (issue (HttpGet (''/view/'' @ viewId))
          (\<lambda>log. view_reply E log (HttpGet (''/view/'' @ viewId))))
       (\<lambda>e. io_throw (handleError e (Some (''Failed to get view '' @ viewId))))"

definition updateView :: "env \<Rightarrow> string \<Rightarrow> UpdateViewData \<Rightarrow> ClickUpView io" where
  "updateView E viewId updateData =
     io_catch
       (issue (HttpPut (''/view/'' @ viewId) updateData)
          (\<lambda>log. view_reply E log (HttpPut (''/view/'' @ viewId) updateData)))
       (\<lambda>e. io_throw (handleError e (Some (''Failed to update view '' @ viewId))))"


text \<open>
  \<open>ViewService.findViewByName\<close>: fetch the parent's views, then \<open>Array.find\<close> with
  \<open>===\<close> on the name, \<open>null\<close> (\<open>None\<close>) when no view has the name.
\<close>

definition findViewByName :: "env \<Rightarrow> string \<Rightarrow> string \<Rightarrow> string \<Rightarrow> ClickUpView option io" where
  "findViewByName E parentId parentType viewName =
     io_catch
       (io_bind
          (if parentType = ''team'' then getWorkspaceViews E
           else if parentType = ''space'' then getSpaceViews E parentId
           else if parentType = ''folder'' then getFolderViews E parentId
           else if parentType = ''list'' then getListViews E parentId
           else io_throw
                  (ClickUpServiceError (''Invalid parent type: '' @ parentType) INVALID_PARAMETER))
          (\<lambda>views. io_return (find (\<lambda>view. view_name view = viewName) views)))
       (\<lambda>e. io_throw (handleError e (Some (''Failed to find view by name: '' @ viewName))))"

section \<open>The workspace service, as the handlers call it\<close>

definition findSpaceIDByName :: "env \<Rightarrow> string \<Rightarrow> string option io" where
  "findSpaceIDByName E spaceName =
     issue (FindSpaceIDByName spaceName) (\<lambda>log. findSpaceIDByName_reply E log spaceName)"

definition findSpaceByName :: "env \<Rightarrow> string \<Rightarrow> ClickUpSpace option io" where
  "findSpaceByName E spaceName =
     issue (FindSpaceByName spaceName) (\<lambda>log. findSpaceByName_reply E log spaceName)"

definition getWorkspaceHierarchy :: "env \<Rightarrow> json io" where
  "getWorkspaceHierarchy E = issue GetWorkspaceHierarchy (getWorkspaceHierarchy_reply E)"

definition createSpace :: "env \<Rightarrow> CreateSpaceData \<Rightarrow> ClickUpSpace io" where
  "createSpace E spaceData =
     issue (CreateSpace spaceData) (\<lambda>log. space_reply E log (CreateSpace spaceData))"

definition updateSpace :: "env \<Rightarrow> string \<Rightarrow> UpdateSpaceData \<Rightarrow> ClickUpSpace io" where
  "updateSpace E spaceId updateData =
     issue (UpdateSpace spaceId updateData)
       (\<lambda>log. space_reply E log (UpdateSpace spaceId updateData))"

definition getSpace :: "env \<Rightarrow> string \<Rightarrow> ClickUpSpace io" where
  "getSpace E spaceId = issue (GetSpace spaceId) (\<lambda>log. space_reply E log (GetSpace spaceId))"

definition deleteSpace :: "env \<Rightarrow> string \<Rightarrow> unit io" where
  "deleteSpace E spaceId =
     issue (DeleteSpace spaceId) (\<lambda>log. deleteSpace_reply E log spaceId)"

section \<open>Resolving a parent\<close>

text \<open>\<open>resolveParentId\<close> of the view tools.\<close>

definition resolveParentId :: "env \<Rightarrow> string \<Rightarrow> string option \<Rightarrow> string option \<Rightarrow> string io" where
  "resolveParentId E parentType parentId parentName =
     (if parentType = ''team'' then io_return (clickupTeamId E)
      else if truthy_str parentId then io_return (the parentId)
      else if \<not> truthy_str parentName then
        io_throw (Error (''Either parentId or parentName must be provided for '' @ parentType))
      else if parentType = ''space'' then
        io_bind (findSpaceIDByName E (the parentName))
          (\<lambda>spaceId. if \<not> truthy_str spaceId
                      then io_throw (Error (''Space '' @ quoted (the parentName) @ '' not found''))
                      else io_return (the spaceId))
      else if parentType = ''folder'' then
        io_bind (getWorkspaceHierarchy E)
          (\<lambda>hierarchy.
             case findIDByNameInHierarchy E hierarchy (the parentName) ''folder'' of
               None \<Rightarrow> io_throw (Error (''Folder '' @ quoted (the parentName) @ '' not found''))
             | Some folderInfo \<Rightarrow> io_return (info_id folderInfo))
      else if parentType = ''list'' then
        io_bind (getWorkspaceHierarchy E)
          (\<lambda>hierarchy.
             case findIDByNameInHierarchy E hierarchy (the parentName) ''list'' of
               None \<Rightarrow> io_throw (Error (''List '' @ quoted (the parentName) @ '' not found''))
             | Some listInfo \<Rightarrow> io_return (info_id listInfo))
      else io_throw (Error (''Invalid parent type: '' @ parentType)))"

section \<open>Tool responses\<close>

text \<open>
  A handler answers through the response formatter: \<open>createResponse\<close> with the object
  built by the handler, or \<open>createErrorResponse\<close> with a message. Each constructor of
  \<open>payload\<close> is the object one handler builds, field by field.
\<close>

datatype payload =
    ViewCreated string string string json string
  | ViewRetrieved ClickUpView string
  | ViewUpdated string string string string
  | ViewDeleted string
  | SpaceCreated string string "bool option" "json option" string string
  | SpaceUpdated string "string option" "bool option" string
  | SpaceDeleted string

datatype response = Response payload | ErrorResponse string

text \<open>A possibly undefined string inside a template literal.\<close>

definition interpolate :: "string option \<Rightarrow> string" where
  "interpolate x = (case x of None \<Rightarrow> ''undefined'' | Some s \<Rightarrow> s)"

section \<open>The view tools\<close>


record ViewRefParams =
  viewId :: "string option"
  viewName :: "string option"
  parentType :: "string option"
  parentId :: "string option"
  parentName :: "string option"

record UpdateViewParams = ViewRefParams +
  uvp_name :: "string option"
  uvp_groupBy :: "string option"
  uvp_groupDirection :: "int option"
  uvp_filters :: "FiltersParam option"
  uvp_columns :: "json option"
  uvp_settings :: "SettingsParam option"

text \<open>The pieces of a view payload, built the same way by create and update.\<close>

definition build_grouping :: "string option \<Rightarrow> int option \<Rightarrow> Grouping option" where
  "build_grouping groupBy groupDirection =
     (if truthy_str groupBy
      then Some \<lparr>grouping_field = the groupBy,
                 grouping_dir = (if truthy_num groupDirection then the groupDirection else 1)\<rparr>
      else None)"

definition build_filters :: "FiltersParam option \<Rightarrow> ApiFilters option" where
  "build_filters fs =
     (case fs of
        None \<Rightarrow> None
      | Some f \<Rightarrow>
          Some \<lparr>op = (if truthy_str (filters_operator f) then the (filters_operator f)
                      else ''AND''),
                filters = (case filters_conditions f of
                             None \<Rightarrow> []
                           | Some cs \<Rightarrow>
                               map (\<lambda>c. \<lparr>filter_field = field c, filter_op = operator c,
                                          filter_value = value c\<rparr>) cs)\<rparr>)"

definition build_columns :: "json option \<Rightarrow> json option" where
  "build_columns columns = (if truthy_opt columns then columns else None)"

definition build_settings :: "SettingsParam option \<Rightarrow> ApiSettings option" where
  "build_settings st =
     (case st of
        None \<Rightarrow> None
      | Some x \<Rightarrow>
          Some \<lparr>show_task_locations = showTaskLocations x,
                show_subtasks = showSubtasks x,
                show_assignees = showAssignees x,
                show_images = showImages x,
                me_mode = meMode x\<rparr>)"


definition handleGetView :: "env \<Rightarrow> ViewRefParams \<Rightarrow> response io" where
  "handleGetView E p =
     io_catch
       (io_bind
          (if truthy_str (viewId p) then getView E (the (viewId p))
           else if truthy_str (viewName p) \<and> truthy_str (parentType p) then
             io_bind (resolveParentId E (the (parentType p)) (parentId p) (parentName p))
               (\<lambda>resolvedParentId.
                  io_bind (findViewByName E resolvedParentId (the (parentType p)) (the (viewName p)))
                    (\<lambda>foundView.
                       case foundView of
                         None \<Rightarrow> io_throw
                           (Error (''View '' @ quoted (the (viewName p)) @ '' not found''))
                       | Some view \<Rightarrow> io_return view))
           else io_throw
                  (Error ''Either viewId or (viewName with parent info) must be provided''))
          (\<lambda>view. io_return
             (Response (ViewRetrieved view
                (''Retrieved view '' @ quoted (view_name view))))))
       (\<lambda>e. io_return (ErrorResponse (''Failed to get view: '' @ message e)))"

text \<open>
  The block \<open>Resolve view ID\<close>, which the update, delete and task handlers repeat word
  for word: the given id, or else the id of the view found by name, which must be
  truthy in the end.
\<close>

definition resolveViewId :: "env \<Rightarrow> 'a ViewRefParams_scheme \<Rightarrow> string io" where
  "resolveViewId E p =
     io_bind
       (if \<not> truthy_str (viewId p) \<and> truthy_str (viewName p) \<and> truthy_str (parentType p)
        then
          io_bind (resolveParentId E (the (parentType p)) (parentId p) (parentName p))
            (\<lambda>resolvedParentId.
               io_bind (findViewByName E resolvedParentId (the (parentType p)) (the (viewName p)))
                 (\<lambda>foundView.
                    case foundView of
                      None \<Rightarrow> io_throw
                        (Error (''View '' @ quoted (the (viewName p)) @ '' not found''))
                    | Some view \<Rightarrow> io_return (Some (view_id view))))
        else io_return (viewId p))
       (\<lambda>targetViewId.
          if \<not> truthy_str targetViewId
          then io_throw
                 (Error ''Either viewId or (viewName with parent info) must be provided'')
          else io_return (the targetViewId))"

definition buildUpdateViewData :: "UpdateViewParams \<Rightarrow> UpdateViewData" where
  "buildUpdateViewData p =
     \<lparr>uv_name = (if truthy_str (uvp_name p) then uvp_name p else None),
      uv_grouping = build_grouping (uvp_groupBy p) (uvp_groupDirection p),
      uv_filters = build_filters (uvp_filters p),
      uv_columns = build_columns (uvp_columns p),
      uv_settings = build_settings (uvp_settings p)\<rparr>"

definition handleUpdateView :: "env \<Rightarrow> UpdateViewParams \<Rightarrow> response io" where
  "handleUpdateView E p =
     io_catch
       (io_bind (resolveViewId E p)
          (\<lambda>targetViewId.
             io_bind (updateView E targetViewId (buildUpdateViewData p))
               (\<lambda>updatedView. io_return
                  (Response (ViewUpdated (view_id updatedView) (view_name updatedView)
                     (view_type updatedView)
                     (''View '' @ quoted (view_name updatedView) @ '' updated successfully''))))))
       (\<lambda>e. io_return (ErrorResponse (''Failed to update view: '' @ message e)))"


section \<open>The space tools\<close>

record CreateSpaceParams =
  csp_name :: "string option"
  csp_color :: "string option"
  csp_private :: "bool option"
  csp_multipleAssignees :: "bool option"
  csp_features :: "FeaturesParam option"

record SpaceRefParams =
  spaceId :: "string option"
  spaceName :: "string option"

record UpdateSpaceParams = SpaceRefParams +
  usp_name :: "string option"
  usp_color :: "string option"
  usp_private :: "bool option"
  usp_adminCanManage :: "bool option"
  usp_multipleAssignees :: "bool option"
  usp_features :: "FeaturesParam option"

definition keep_truthy :: "json option \<Rightarrow> json option" where
  "keep_truthy x = (if truthy_opt x then x else None)"

text \<open>
  \<open>convertFeaturesToAPI\<close>: each truthy feature is copied under its API name, and an
  object left without keys is \<open>undefined\<close>.
\<close>

definition convertFeaturesToAPI :: "FeaturesParam option \<Rightarrow> ApiFeatures option" where
  "convertFeaturesToAPI features =
     (case features of
        None \<Rightarrow> None
      | Some f \<Rightarrow>
          let apiFeatures =
                \<lparr>due_dates =
                   (case dueDates f of
                      None \<Rightarrow> None
                    | Some d \<Rightarrow>
                        Some \<lparr>enabled = dd_enabled d, start_date = startDate d,
                              remap_due_dates = remapDueDates d,
                              remap_closed_due_date = remapClosedDueDate d\<rparr>),
                 time_tracking = keep_truthy (timeTracking f),
                 api_tags = keep_truthy (tags f),
                 time_estimates = keep_truthy (timeEstimates f),
                 api_checklists = keep_truthy (checklists f),
                 custom_fields = keep_truthy (customFields f),
                 remap_dependencies = keep_truthy (remapDependencies f),
                 dependency_warning = keep_truthy (dependencyWarning f),
                 api_portfolios = keep_truthy (portfolios f)\<rparr>
          in if due_dates apiFeatures = None \<and> time_tracking apiFeatures = None
                \<and> api_tags apiFeatures = None \<and> time_estimates apiFeatures = None
                \<and> api_checklists apiFeatures = None \<and> custom_fields apiFeatures = None
                \<and> remap_dependencies apiFeatures = None
                \<and> dependency_warning apiFeatures = None
                \<and> api_portfolios apiFeatures = None
             then None else Some apiFeatures)"

text \<open>The colour written into an update: the processed background, or the text as given.\<close>

definition colorHex :: "env \<Rightarrow> string \<Rightarrow> string" where
  "colorHex E color =
     (case processColorCommand E color of
        None \<Rightarrow> color
      | Some colorResult \<Rightarrow> background colorResult)"

text \<open>\<open>Object.keys(updateData).length > 0\<close> on the update built by \<open>handleCreateSpace\<close>.\<close>

definition has_keys :: "UpdateSpaceData \<Rightarrow> bool" where
  "has_keys u = (us_name u \<noteq> None \<or> us_color u \<noteq> None \<or> us_private u \<noteq> None
                 \<or> us_admin_can_manage u \<noteq> None \<or> us_multiple_assignees u \<noteq> None
                 \<or> us_features u \<noteq> None)"

definition createSpaceData :: "CreateSpaceParams \<Rightarrow> CreateSpaceData" where
  "createSpaceData p =
     \<lparr>cs_name = the (csp_name p),
      cs_multiple_assignees = csp_multipleAssignees p,
      cs_features = convertFeaturesToAPI (csp_features p)\<rparr>"

definition createSpaceUpdate :: "env \<Rightarrow> CreateSpaceParams \<Rightarrow> ClickUpSpace \<Rightarrow> UpdateSpaceData" where
  "createSpaceUpdate E p newSpace =
     \<lparr>us_name = (if \<not> truthy_str (space_name newSpace) \<or> space_name newSpace \<noteq> csp_name p
                 then csp_name p else None),
      us_color = (if truthy_str (csp_color p) then Some (colorHex E (the (csp_color p)))
                  else None),
      us_private = csp_private p,
      us_admin_can_manage = None,
      us_multiple_assignees = None,
      us_features = None\<rparr>"

text \<open>The object \<open>handleCreateSpace\<close> answers with, built from the final space.\<close>

definition createSpaceResponse :: "env \<Rightarrow> CreateSpaceParams \<Rightarrow> ClickUpSpace \<Rightarrow> response" where
  "createSpaceResponse E p finalSpace =
     (let shown = (if truthy_str (space_name finalSpace) then the (space_name finalSpace)
                   else the (csp_name p))
      in Response (SpaceCreated (space_id finalSpace) shown
           (space_private finalSpace) (space_features finalSpace)
           (''https://app.clickup.com/'' @ clickupTeamId E @ ''/v/s/'' @ space_id finalSpace)
           (''Space '' @ quoted shown @ '' created successfully'')))"

definition handleCreateSpace :: "env \<Rightarrow> CreateSpaceParams \<Rightarrow> response io" where
  "handleCreateSpace E p =
     (if \<not> truthy_str (csp_name p) then io_throw (Error ''Space name is required'')
      else
        io_catch
          (io_bind (createSpace E (createSpaceData p))
             (\<lambda>newSpace.
                io_bind
                  (if has_keys (createSpaceUpdate E p newSpace)
                   then updateSpace E (space_id newSpace) (createSpaceUpdate E p newSpace)
                   else io_return newSpace)
                  (\<lambda>updated.
                     io_bind
                       (if \<not> truthy_str (space_name updated) \<or> space_name updated \<noteq> csp_name p
                        then getSpace E (space_id updated)
                        else io_return updated)
                       (\<lambda>finalSpace. io_return (createSpaceResponse E p finalSpace)))))
          (\<lambda>e. io_return (ErrorResponse (''Failed to create space: '' @ message e))))"

definition buildUpdateSpaceData :: "env \<Rightarrow> UpdateSpaceParams \<Rightarrow> UpdateSpaceData" where
  "buildUpdateSpaceData E p =
     \<lparr>us_name = (if truthy_str (usp_name p) then usp_name p else None),
      us_color = (if truthy_str (usp_color p) then Some (colorHex E (the (usp_color p)))
                  else None),
      us_private = usp_private p,
      us_admin_can_manage = usp_adminCanManage p,
      us_multiple_assignees = usp_multipleAssignees p,
      us_features = convertFeaturesToAPI (usp_features p)\<rparr>"

definition handleUpdateSpace :: "env \<Rightarrow> UpdateSpaceParams \<Rightarrow> response io" where
  "handleUpdateSpace E p =
     io_catch
       (io_bind
          (if \<not> truthy_str (spaceId p) \<and> truthy_str (spaceName p) then
             io_bind (findSpaceByName E (the (spaceName p)))
               (\<lambda>foundSpace.
                  case foundSpace of
                    None \<Rightarrow> io_throw
                      (Error (''Space '' @ quoted (the (spaceName p)) @ '' not found''))
                  | Some sp \<Rightarrow> io_return (Some (space_id sp)))
           else io_return (spaceId p))
          (\<lambda>targetSpaceId.
             if \<not> truthy_str targetSpaceId
             then io_throw (Error ''Either spaceId or spaceName must be provided'')
             else
               io_bind (updateSpace E (the targetSpaceId) (buildUpdateSpaceData E p))
                 (\<lambda>updatedSpace. io_return
                    (Response (SpaceUpdated (space_id updatedSpace) (space_name updatedSpace)
                       (space_private updatedSpace)
                       (''Space '' @ quoted (interpolate (space_name updatedSpace))
                          @ '' updated successfully''))))))
       (\<lambda>e. io_return (ErrorResponse (''Failed to update space: '' @ message e)))"

definition handleDeleteSpace :: "env \<Rightarrow> SpaceRefParams \<Rightarrow> response io" where
  "handleDeleteSpace E p =
     io_catch
       (io_bind
          (if \<not> truthy_str (spaceId p) \<and> truthy_str (spaceName p) then
             io_bind (findSpaceByName E (the (spaceName p)))
               (\<lambda>foundSpace.
                  case foundSpace of
                    None \<Rightarrow> io_throw
                      (Error (''Space '' @ quoted (the (spaceName p)) @ '' not found''))
                  | Some sp \<Rightarrow> io_return (Some (space_id sp), space_name sp))
           else if truthy_str (spaceId p) \<and> \<not> truthy_str (spaceName p) then
             io_bind (getSpace E (the (spaceId p)))
               (\<lambda>space. io_return (spaceId p, space_name space))
           else io_return (spaceId p, spaceName p))
          (\<lambda>(targetSpaceId, targetSpaceName).
             if \<not> truthy_str targetSpaceId
             then io_throw (Error ''Either spaceId or spaceName must be provided'')
             else
               io_bind (deleteSpace E (the targetSpaceId))
                 (\<lambda>_. io_return
                    (Response (SpaceDeleted
                       (''Space '' @ quoted (interpolate targetSpaceName)
                          @ '' deleted successfully''))))))
       (\<lambda>e. io_return (ErrorResponse (''Failed to delete space: '' @ message e)))"

section \<open>Vocabulary of the properties\<close>

text \<open>The four parent types the tools' schemas allow.\<close>

definition valid_parent_type :: "string \<Rightarrow> bool" where
  "valid_parent_type t = (t = ''team'' \<or> t = ''space'' \<or> t = ''folder'' \<or> t = ''list'')"

text \<open>The request that fetches the views of a parent, and the message of its failure.\<close>

definition views_endpoint :: "env \<Rightarrow> string \<Rightarrow> string \<Rightarrow> string" where
  "views_endpoint E t i =
     (if t = ''team'' then ''/team/'' @ teamId E @ ''/view''
      else ''/'' @ t @ ''/'' @ i @ ''/view'')"

definition views_failure :: "string \<Rightarrow> string" where
  "views_failure t =
     (if t = ''team'' then ''Failed to get workspace views''
      else ''Failed to get '' @ t @ '' views'')"

text \<open>The views of a list whose name is the queried one, byte for byte.\<close>

definition exact_matches :: "string \<Rightarrow> ClickUpView list \<Rightarrow> ClickUpView list" where
  "exact_matches q vs = filter (\<lambda>v. view_name v = q) vs"

text \<open>
  Comparison without regard to case, as the specification's fallback tier would compare
  names: ASCII capitals are folded to small letters.
\<close>

definition lower_char :: "char \<Rightarrow> char" where
  "lower_char c =
     (if 65 \<le> (of_char c :: nat) \<and> (of_char c :: nat) \<le> 90
      then char_of ((of_char c :: nat) + 32) else c)"

definition caseless_matches :: "string \<Rightarrow> ClickUpView list \<Rightarrow> ClickUpView list" where
  "caseless_matches q vs = filter (\<lambda>v. map lower_char (view_name v) = map lower_char q) vs"

text \<open>The calls that change the remote workspace.\<close>

fun is_mutation :: "call \<Rightarrow> bool" where
  "is_mutation (HttpPost ep d) = True"
| "is_mutation (HttpPut ep d) = True"
| "is_mutation (HttpDelete ep) = True"
| "is_mutation (CreateSpace d) = True"
| "is_mutation (UpdateSpace i d) = True"
| "is_mutation (DeleteSpace i) = True"
| "is_mutation c = False"

text \<open>The calls \<open>handleCreateSpace\<close> may issue after the creation.\<close>

fun is_space_followup :: "call \<Rightarrow> bool" where
  "is_space_followup (UpdateSpace i d) = True"
| "is_space_followup (GetSpace i) = True"
| "is_space_followup c = False"

section \<open>The hierarchy cache of the workspace service\<close>






section \<open>Sample workspaces\<close>

definition mk_view :: "string \<Rightarrow> string \<Rightarrow> ClickUpView" where
  "mk_view i n = \<lparr>view_id = i, view_name = n, view_type = ''board'',
                   view_parent = JNull, view_details = JNull\<rparr>"

definition mk_space :: "string \<Rightarrow> string option \<Rightarrow> ClickUpSpace" where
  "mk_space i n = \<lparr>space_id = i, space_name = n, space_private = Some False,
                    space_features = None\<rparr>"

text \<open>
  A remote system that holds the given views under every parent, answers a view
  mutation with a view of the requested name, and answers every space call with a space
  that has the requested name.
\<close>

fun echo_view :: "call \<Rightarrow> error + ClickUpView" where
  "echo_view (HttpPost ep d) = Inr (mk_view ''v100'' (cv_name d))"
| "echo_view (HttpPut ep d) = Inr (mk_view ''v100'' (case uv_name d of None \<Rightarrow> ''Old'' | Some n \<Rightarrow> n))"
| "echo_view c = Inr (mk_view ''v100'' ''Old'')"

fun echo_space :: "call \<Rightarrow> error + ClickUpSpace" where
  "echo_space (CreateSpace d) = Inr (mk_space ''s100'' (Some (cs_name d)))"
| "echo_space (UpdateSpace i d) = Inr (mk_space i (case us_name d of None \<Rightarrow> Some ''Old'' | Some n \<Rightarrow> Some n))"
| "echo_space (GetSpace i) = Inr (mk_space i (Some ''Old''))"
| "echo_space c = Inl (Error ''not a space call'')"

definition sample_env :: "ClickUpView list \<Rightarrow> env" where
  "sample_env vs =
     \<lparr>clickupTeamId = ''9001'',
      teamId = ''9001'',
      views_reply = (\<lambda>log ep. Inr vs),
      view_reply = (\<lambda>log c. echo_view c),
      delete_reply = (\<lambda>log ep. Inr ()),
      rethrown = (\<lambda>e. e),
      findSpaceIDByName_reply = (\<lambda>log n. Inr None),
      findSpaceByName_reply = (\<lambda>log n. Inr None),
      getWorkspaceHierarchy_reply = (\<lambda>log. Inr JNull),
      findIDByNameInHierarchy = (\<lambda>h n k. Some \<lparr>info_id = ''f7''\<rparr>),
      space_reply = (\<lambda>log c. echo_space c),
      deleteSpace_reply = (\<lambda>log i. Inr ()),
      processColorCommand = (\<lambda>c. None)\<rparr>"

text \<open>
  A remote system that lists, under each parent, the views created there so far: the
  reply to a fetch is computed from the requests issued before it.
\<close>

fun created_views :: "call list \<Rightarrow> string \<Rightarrow> ClickUpView list" where
  "created_views [] ep = []"
| "created_views (HttpPost ep' d # cs) ep =
     (if ep' = ep then mk_view ''v100'' (cv_name d) # created_views cs ep
      else created_views cs ep)"
| "created_views (c # cs) ep = created_views cs ep"

definition recording_env :: env where
  "recording_env = (sample_env [])\<lparr>views_reply := (\<lambda>log ep. Inr (created_views log ep))\<rparr>"



definition sample_update_view :: UpdateViewParams where
  "sample_update_view =
     \<lparr>viewId = Some ''v100'', viewName = None, parentType = None, parentId = None,
      parentName = None, uvp_name = Some ''Kanban'', uvp_groupBy = Some ''status'',
      uvp_groupDirection = None, uvp_filters = None, uvp_columns = None,
      uvp_settings = None\<rparr>"


definition sample_update_space :: UpdateSpaceParams where
  "sample_update_space =
     \<lparr>spaceId = Some ''s1'', spaceName = None, usp_name = Some ''Ops'', usp_color = None,
      usp_private = Some True, usp_adminCanManage = None, usp_multipleAssignees = None,
      usp_features = None\<rparr>"

definition sample_create_space :: CreateSpaceParams where
  "sample_create_space =
     \<lparr>csp_name = Some ''Eng'', csp_color = Some ''#ff0000'', csp_private = None,
      csp_multipleAssignees = Some True, csp_features = None\<rparr>"




text \<open>A remote system that never reports the name of a space.\<close>

fun nameless_space :: "call \<Rightarrow> error + ClickUpSpace" where
  "nameless_space (CreateSpace d) = Inr (mk_space ''s100'' None)"
| "nameless_space (UpdateSpace i d) = Inr (mk_space i None)"
| "nameless_space (GetSpace i) = Inr (mk_space i None)"
| "nameless_space c = Inl (Error ''not a space call'')"

definition nameless_env :: env where
  "nameless_env = (sample_env [])\<lparr>space_reply := (\<lambda>log c. nameless_space c)\<rparr>"

text \<open>A remote system that reports the name of a new space only once it was updated.\<close>

fun late_name_space :: "call \<Rightarrow> error + ClickUpSpace" where
  "late_name_space (CreateSpace d) = Inr (mk_space ''s100'' None)"
| "late_name_space c = echo_space c"

definition late_name_env :: env where
  "late_name_env = (sample_env [])\<lparr>space_reply := (\<lambda>log c. late_name_space c)\<rparr>"

text \<open>A workspace with one view under every parent and a space under every name.\<close>

definition directory_env :: env where
  "directory_env =
     (sample_env [mk_view ''v7'' ''Kanban''])
       \<lparr>findSpaceByName_reply := (\<lambda>log n. Inr (Some (mk_space ''s1'' (Some n))))\<rparr>"

text \<open>Updates that address their target by name and set several fields.\<close>

definition sample_update_view_by_name :: UpdateViewParams where
  "sample_update_view_by_name =
     \<lparr>viewId = None, viewName = Some ''Kanban'', parentType = Some ''space'',
      parentId = Some ''42'', parentName = None, uvp_name = Some '''',
      uvp_groupBy = Some ''status'', uvp_groupDirection = Some (- 1),
      uvp_filters = Some \<lparr>filters_operator = None,
        filters_conditions = Some [\<lparr>field = Some (JStr ''priority''),
          operator = Some (JStr ''equals''), value = Some (JNum 1)\<rparr>]\<rparr>,
      uvp_columns = Some (JArr [JStr ''assignee'']),
      uvp_settings = Some \<lparr>showTaskLocations = Some True, showSubtasks = Some 2,
        showAssignees = None, showImages = None, meMode = Some False\<rparr>\<rparr>"

definition sample_update_space_by_name :: UpdateSpaceParams where
  "sample_update_space_by_name =
     \<lparr>spaceId = None, spaceName = Some ''Eng'', usp_name = Some '''',
      usp_color = Some ''#00ff00'', usp_private = Some True, usp_adminCanManage = Some False,
      usp_multipleAssignees = Some True,
      usp_features = Some \<lparr>dueDates = None, timeTracking = Some (JObj [(''enabled'', JBool True)]),
        tags = None, timeEstimates = None, checklists = None, customFields = None,
        remapDependencies = None, dependencyWarning = None, portfolios = None\<rparr>\<rparr>"



section \<open>Facts about the view service\<close>

lemma handleError_idem: "handleError (handleError e m) m' = handleError e m"
  by (cases e) (simp_all add: handleError_def)


text \<open>
  For one of the four parent types, \<open>findViewByName\<close> issues exactly one request, the
  fetch of that parent's views, and its result is read off the reply to that request.
\<close>

lemma findViewByName_valid:
  assumes "valid_parent_type t"
  shows "findViewByName E i t q log =
     (case views_reply E log (views_endpoint E t i) of
        Inl e \<Rightarrow> Inl (handleError e (Some (views_failure t)))
      | Inr views \<Rightarrow> Inr (find (\<lambda>view. view_name view = q) views),
      log @ [HttpGet (views_endpoint E t i)])"
  using assms
  by (auto simp: valid_parent_type_def findViewByName_def getWorkspaceViews_def
      getSpaceViews_def getFolderViews_def getListViews_def io_catch_def io_bind_def
      io_return_def io_throw_def issue_def views_endpoint_def views_failure_def
      handleError_idem split: sum.splits)


lemma find_filter_conv:
  "find P xs = (case filter P xs of [] \<Rightarrow> None | x # ys \<Rightarrow> Some x)"
  by (induction xs) auto

section \<open>Exact matches\<close>

text \<open>
  C3. When exactly one view of the parent has a name equal to the query byte for byte,
  \<open>findViewByName\<close> returns that view, whatever the other views are called; in
  particular a view whose name differs from the query only in case does not interfere.
\<close>

theorem findViewByName_unique_exact_match:
  assumes "valid_parent_type t"
    and "views_reply E log (views_endpoint E t i) = Inr views"
    and "exact_matches q views = [v]"
  shows "fst (findViewByName E i t q log) = Inr (Some v)"
  using assms(2,3)
  by (simp add: findViewByName_valid [OF assms(1)] find_filter_conv exact_matches_def)

theorem findViewByName_unique_exact_match_witness:
  "valid_parent_type ''space''
   \<and> views_reply (sample_env [mk_view ''v1'' ''board'', mk_view ''v2'' ''Board'']) []
        (views_endpoint (sample_env [mk_view ''v1'' ''board'', mk_view ''v2'' ''Board''])
           ''space'' ''42'')
      = Inr [mk_view ''v1'' ''board'', mk_view ''v2'' ''Board'']
   \<and> exact_matches ''Board'' [mk_view ''v1'' ''board'', mk_view ''v2'' ''Board'']
      = [mk_view ''v2'' ''Board'']
   \<and> caseless_matches ''Board'' [mk_view ''v1'' ''board'', mk_view ''v2'' ''Board'']
      = [mk_view ''v1'' ''board'', mk_view ''v2'' ''Board'']
   \<and> fst (findViewByName (sample_env [mk_view ''v1'' ''board'', mk_view ''v2'' ''Board''])
        ''42'' ''space'' ''Board'' []) = Inr (Some (mk_view ''v2'' ''Board''))"
proof -
  let ?vs = "[mk_view ''v1'' ''board'', mk_view ''v2'' ''Board'']"
  have h1: "valid_parent_type ''space''"
    by (simp add: valid_parent_type_def)
  have h2: "views_reply (sample_env ?vs) [] (views_endpoint (sample_env ?vs) ''space'' ''42'')
            = Inr ?vs"
    by (simp add: sample_env_def)
  have h3: "exact_matches ''Board'' ?vs = [mk_view ''v2'' ''Board'']"
    by (simp add: exact_matches_def mk_view_def)
  have h4: "caseless_matches ''Board'' ?vs = ?vs"
    by code_simp
  from findViewByName_unique_exact_match [OF h1 h2 h3] h1 h2 h3 h4 show ?thesis
    by blast
qed

section \<open>Several matches\<close>

lemma resolveParentId_folder_by_name:
  assumes "n \<noteq> []"
  shows "resolveParentId E ''folder'' None (Some n) log =
     (case getWorkspaceHierarchy_reply E log of
        Inl e \<Rightarrow> Inl e
      | Inr h \<Rightarrow> (case findIDByNameInHierarchy E h n ''folder'' of
                    None \<Rightarrow> Inl (Error (''Folder '' @ quoted n @ '' not found''))
                  | Some info \<Rightarrow> Inr (info_id info)),
      log @ [GetWorkspaceHierarchy])"
  using assms
  by (simp add: resolveParentId_def truthy_str_def getWorkspaceHierarchy_def issue_def
      io_bind_def io_throw_def io_return_def split: sum.splits option.splits)

text \<open>
  C1 (as the code has it). There is no ambiguity result. When two or more views of the
  parent carry the queried name, \<open>findViewByName\<close> returns the first of them in the
  order of the fetched list. For a folder looked up by name across the workspace,
  \<open>resolveParentId\<close> returns the id of the one entry the hierarchy lookup hands back.
\<close>

theorem findViewByName_first_of_several:
  "(valid_parent_type t \<and> views_reply E log (views_endpoint E t i) = Inr views
      \<and> 2 \<le> length (exact_matches q views)
    \<longrightarrow> fst (findViewByName E i t q log) = Inr (Some (hd (exact_matches q views))))
   \<and> (n \<noteq> [] \<and> getWorkspaceHierarchy_reply E log = Inr h
        \<and> findIDByNameInHierarchy E h n ''folder'' = Some info
    \<longrightarrow> fst (resolveParentId E ''folder'' None (Some n) log) = Inr (info_id info))"
proof (intro conjI impI)
  assume a: "valid_parent_type t \<and> views_reply E log (views_endpoint E t i) = Inr views
      \<and> 2 \<le> length (exact_matches q views)"
  then have "exact_matches q views \<noteq> []" by auto
  then obtain x ys where "exact_matches q views = x # ys"
    by (cases "exact_matches q views") auto
  with a show "fst (findViewByName E i t q log) = Inr (Some (hd (exact_matches q views)))"
    by (simp add: findViewByName_valid find_filter_conv exact_matches_def)
next
  assume "n \<noteq> [] \<and> getWorkspaceHierarchy_reply E log = Inr h
        \<and> findIDByNameInHierarchy E h n ''folder'' = Some info"
  then show "fst (resolveParentId E ''folder'' None (Some n) log) = Inr (info_id info)"
    by (simp add: resolveParentId_folder_by_name)
qed

text \<open>
  C1 (as stated) fails: with two views named Board under space 42, resolving Board
  does not report an ambiguity; it silently returns the first of the two.
\<close>

theorem findViewByName_ambiguity_counterexample:
  "exact_matches ''Board'' [mk_view ''v1'' ''Board'', mk_view ''v2'' ''Board'']
     = [mk_view ''v1'' ''Board'', mk_view ''v2'' ''Board'']
   \<and> findViewByName (sample_env [mk_view ''v1'' ''Board'', mk_view ''v2'' ''Board''])
        ''42'' ''space'' ''Board'' []
     = (Inr (Some (mk_view ''v1'' ''Board'')), [HttpGet ''/space/42/view''])"
  by (simp add: exact_matches_def mk_view_def findViewByName_def getSpaceViews_def
      sample_env_def io_catch_def io_bind_def io_return_def issue_def)

theorem findViewByName_first_of_several_witness:
  "(valid_parent_type ''list''
    \<and> views_reply (sample_env [mk_view ''v1'' ''Board'', mk_view ''v2'' ''Roadmap'', mk_view ''v3'' ''Board'']) []
        (views_endpoint (sample_env [mk_view ''v1'' ''Board'', mk_view ''v2'' ''Roadmap'', mk_view ''v3'' ''Board'']) ''list'' ''77'')
       = Inr [mk_view ''v1'' ''Board'', mk_view ''v2'' ''Roadmap'', mk_view ''v3'' ''Board'']
    \<and> 2 \<le> length (exact_matches ''Board'' [mk_view ''v1'' ''Board'', mk_view ''v2'' ''Roadmap'', mk_view ''v3'' ''Board''])
    \<and> fst (findViewByName (sample_env [mk_view ''v1'' ''Board'', mk_view ''v2'' ''Roadmap'', mk_view ''v3'' ''Board''])
         ''77'' ''list'' ''Board'' []) = Inr (Some (mk_view ''v1'' ''Board'')))
   \<and> (''Sprint 23'' \<noteq> []
    \<and> getWorkspaceHierarchy_reply (sample_env [mk_view ''v1'' ''Board'', mk_view ''v2'' ''Roadmap'', mk_view ''v3'' ''Board'']) [] = Inr JNull
    \<and> findIDByNameInHierarchy (sample_env [mk_view ''v1'' ''Board'', mk_view ''v2'' ''Roadmap'', mk_view ''v3'' ''Board'']) JNull ''Sprint 23'' ''folder''
        = Some \<lparr>info_id = ''f7''\<rparr>
    \<and> fst (resolveParentId (sample_env [mk_view ''v1'' ''Board'', mk_view ''v2'' ''Roadmap'', mk_view ''v3'' ''Board''])
         ''folder'' None (Some ''Sprint 23'') []) = Inr ''f7'')"
proof -
  let ?vs = "[mk_view ''v1'' ''Board'', mk_view ''v2'' ''Roadmap'', mk_view ''v3'' ''Board'']"
  have h1: "valid_parent_type ''list''"
    by (simp add: valid_parent_type_def)
  have h2: "views_reply (sample_env ?vs) [] (views_endpoint (sample_env ?vs) ''list'' ''77'') = Inr ?vs"
    by (simp add: sample_env_def)
  have h3: "2 \<le> length (exact_matches ''Board'' ?vs)"
    by (simp add: exact_matches_def mk_view_def)
  have h4: "hd (exact_matches ''Board'' ?vs) = mk_view ''v1'' ''Board''"
    by (simp add: exact_matches_def mk_view_def)
  have g1: "''Sprint 23'' \<noteq> []" by simp
  have g2: "getWorkspaceHierarchy_reply (sample_env ?vs) [] = Inr JNull"
    by (simp add: sample_env_def)
  have g3: "findIDByNameInHierarchy (sample_env ?vs) JNull ''Sprint 23'' ''folder''
            = Some \<lparr>info_id = ''f7''\<rparr>"
    by (simp add: sample_env_def)
  note inst = findViewByName_first_of_several [of "''list''" "sample_env ?vs" "[]" "''77''" ?vs
      "''Board''" "''Sprint 23''" JNull "\<lparr>info_id = ''f7''\<rparr>"]
  from inst h1 h2 h3 g1 g2 g3 have
    "fst (findViewByName (sample_env ?vs) ''77'' ''list'' ''Board'' [])
       = Inr (Some (hd (exact_matches ''Board'' ?vs)))"
    and "fst (resolveParentId (sample_env ?vs) ''folder'' None (Some ''Sprint 23'') []) = Inr ''f7''"
    by simp_all
  with h1 h2 h3 h4 g1 g2 g3 show ?thesis
    by simp
qed

section \<open>No exact match\<close>

text \<open>
  C2 (as the code has it). There is no second, case-insensitive tier. Once the parent's
  views are fetched, \<open>findViewByName\<close> answers \<open>null\<close>, which the handlers report as
  not found, exactly when no view has the queried name byte for byte, whether or not
  some name matches without regard to case.
\<close>

theorem findViewByName_no_exact_match:
  assumes "valid_parent_type t"
    and "views_reply E log (views_endpoint E t i) = Inr views"
  shows "fst (findViewByName E i t q log) = Inr None \<longleftrightarrow> exact_matches q views = []"
  using assms(2)
  by (simp add: findViewByName_valid [OF assms(1)] find_filter_conv exact_matches_def
      split: list.splits)

theorem findViewByName_no_exact_match_witness:
  "valid_parent_type ''space''
   \<and> views_reply (sample_env [mk_view ''v1'' ''Board'']) []
        (views_endpoint (sample_env [mk_view ''v1'' ''Board'']) ''space'' ''42'')
      = Inr [mk_view ''v1'' ''Board'']
   \<and> exact_matches ''board'' [mk_view ''v1'' ''Board''] = []
   \<and> fst (findViewByName (sample_env [mk_view ''v1'' ''Board'']) ''42'' ''space'' ''board'' [])
      = Inr None"
proof -
  let ?vs = "[mk_view ''v1'' ''Board'']"
  have h1: "valid_parent_type ''space''"
    by (simp add: valid_parent_type_def)
  have h2: "views_reply (sample_env ?vs) [] (views_endpoint (sample_env ?vs) ''space'' ''42'')
            = Inr ?vs"
    by (simp add: sample_env_def)
  have h3: "exact_matches ''board'' ?vs = []"
    by (simp add: exact_matches_def mk_view_def)
  from findViewByName_no_exact_match [OF h1 h2, of "''board''"] h3
  have "fst (findViewByName (sample_env ?vs) ''42'' ''space'' ''board'' []) = Inr None"
    by blast
  with h1 h2 h3 show ?thesis
    by blast
qed

text \<open>
  C2 (as stated) fails: the only view of space 42 is named Board; the query board has no
  exact match and exactly one match without regard to case, yet the view service
  answers \<open>null\<close> and \<open>handleGetView\<close> reports the view as not found.
\<close>

theorem findViewByName_fallback_counterexample:
  "exact_matches ''board'' [mk_view ''v1'' ''Board''] = []
   \<and> caseless_matches ''board'' [mk_view ''v1'' ''Board''] = [mk_view ''v1'' ''Board'']
   \<and> fst (findViewByName (sample_env [mk_view ''v1'' ''Board'']) ''42'' ''space'' ''board'' [])
      = Inr None
   \<and> fst (handleGetView (sample_env [mk_view ''v1'' ''Board''])
        \<lparr>viewId = None, viewName = Some ''board'', parentType = Some ''space'',
         parentId = Some ''42'', parentName = None\<rparr> [])
      = Inr (ErrorResponse (''Failed to get view: View '' @ quoted ''board'' @ '' not found''))"
proof -
  have a: "exact_matches ''board'' [mk_view ''v1'' ''Board''] = []"
    by (simp add: exact_matches_def mk_view_def)
  have b: "caseless_matches ''board'' [mk_view ''v1'' ''Board''] = [mk_view ''v1'' ''Board'']"
    by code_simp
  have c: "findViewByName (sample_env [mk_view ''v1'' ''Board'']) ''42'' ''space'' ''board'' []
      = (Inr None, [HttpGet ''/space/42/view''])"
    by (simp add: mk_view_def findViewByName_def getSpaceViews_def
      sample_env_def io_catch_def io_bind_def io_return_def issue_def)
  have d: "fst (handleGetView (sample_env [mk_view ''v1'' ''Board''])
        \<lparr>viewId = None, viewName = Some ''board'', parentType = Some ''space'',
         parentId = Some ''42'', parentName = None\<rparr> [])
      = Inr (ErrorResponse (''Failed to get view: View '' @ quoted ''board'' @ '' not found''))"
    by (simp add: handleGetView_def resolveParentId_def truthy_str_def c
        io_catch_def io_bind_def io_return_def io_throw_def)
  from a b c d show ?thesis by simp
qed

section \<open>The order of the resolver's rules\<close>

text \<open>
  C4 (as the code has it). For the parent type team, \<open>resolveParentId\<close> returns the
  configured workspace id whatever id or name comes with it. For any other parent type
  and a non-empty \<open>parentId\<close>, it returns that id unchanged. In both cases no call is
  issued, and the result is the same for every remote system: the id is not checked.
\<close>

theorem resolveParentId_team_then_id:
  "(t = ''team'' \<longrightarrow> resolveParentId E t pid pname log = (Inr (clickupTeamId E), log))
   \<and> (t \<noteq> ''team'' \<and> i \<noteq> [] \<longrightarrow> resolveParentId E t (Some i) pname log = (Inr i, log))"
  by (simp add: resolveParentId_def truthy_str_def io_return_def)

theorem resolveParentId_team_then_id_witness:
  "resolveParentId (sample_env []) ''team'' (Some ''123'') (Some ''Eng'') [] = (Inr ''9001'', [])
   \<and> ''folder'' \<noteq> ''team'' \<and> ''123'' \<noteq> []
   \<and> resolveParentId (sample_env []) ''folder'' (Some ''123'') (Some ''Eng'') [] = (Inr ''123'', [])"
proof -
  have c: "clickupTeamId (sample_env []) = ''9001''"
    by (simp add: sample_env_def)
  have h1: "''folder'' \<noteq> ''team''" by simp
  have h2: "''123'' \<noteq> []" by simp
  note inst1 = resolveParentId_team_then_id [of "''team''" "sample_env []" "Some ''123''"
      "Some ''Eng''" "[]" "''123''"]
  note inst2 = resolveParentId_team_then_id [of "''folder''" "sample_env []" "Some ''123''"
      "Some ''Eng''" "[]" "''123''"]
  from inst1 c have a: "resolveParentId (sample_env []) ''team'' (Some ''123'') (Some ''Eng'') []
      = (Inr ''9001'', [])"
    by simp
  from inst2 h1 h2 have b: "resolveParentId (sample_env []) ''folder'' (Some ''123'') (Some ''Eng'') []
      = (Inr ''123'', [])"
    by blast
  from a b h1 h2 show ?thesis by blast
qed

text \<open>
  C4 (as stated) fails for an id that is provided but empty: the test \<open>if (parentId)\<close>
  takes the empty string for a missing id, so the resolver goes on to the name and, with
  no name either, throws instead of returning the id.
\<close>

theorem resolveParentId_empty_id_counterexample:
  "resolveParentId (sample_env []) ''space'' (Some '''') None []
     = (Inl (Error ''Either parentId or parentName must be provided for space''), [])
   \<and> fst (resolveParentId (sample_env []) ''space'' (Some '''') None []) \<noteq> Inr ''''"
  by (simp add: resolveParentId_def truthy_str_def io_throw_def)

text \<open>
  C5. For a parent type other than team, with neither an id nor a name (absent, or
  empty), \<open>resolveParentId\<close> throws an error whose message names the pair \<open>parentId\<close>,
  \<open>parentName\<close> and the parent type. No call is issued, and the error is none of the
  not-found errors the resolver throws for a space, a folder or a list.
\<close>

theorem resolveParentId_missing_parent:
  assumes "t \<noteq> ''team''"
    and "\<not> truthy_str pid" and "\<not> truthy_str pname"
  shows "resolveParentId E t pid pname log
           = (Inl (Error (''Either parentId or parentName must be provided for '' @ t)), log)
         \<and> Error (''Either parentId or parentName must be provided for '' @ t)
             \<noteq> Error (''Space '' @ quoted n @ '' not found'')
         \<and> Error (''Either parentId or parentName must be provided for '' @ t)
             \<noteq> Error (''Folder '' @ quoted n @ '' not found'')
         \<and> Error (''Either parentId or parentName must be provided for '' @ t)
             \<noteq> Error (''List '' @ quoted n @ '' not found'')"
  using assms
  by (simp add: resolveParentId_def io_throw_def)

theorem resolveParentId_missing_parent_witness:
  "''list'' \<noteq> ''team'' \<and> \<not> truthy_str None
   \<and> resolveParentId (sample_env []) ''list'' None None []
       = (Inl (Error ''Either parentId or parentName must be provided for list''), [])"
proof -
  have h1: "''list'' \<noteq> ''team''" by simp
  have h2: "\<not> truthy_str None" by (simp add: truthy_str_def)
  from resolveParentId_missing_parent [OF h1 h2 h2, of "sample_env []" "[]" "''x''"] h1 h2
  show ?thesis by simp
qed

section \<open>Fetches per resolution\<close>

text \<open>
  C7 (as the code has it, for resolutions one after another). The view service keeps no
  cache: every \<open>findViewByName\<close> for one of the four parent types issues its own fetch
  of the parent's views, whatever was fetched before, so two resolutions in the same
  parent issue the same request twice.
\<close>

theorem findViewByName_always_fetches:
  assumes "valid_parent_type t"
  shows "snd (findViewByName E i t q log) = log @ [HttpGet (views_endpoint E t i)]
       \<and> snd (findViewByName E i t q' (snd (findViewByName E i t q log)))
           = log @ [HttpGet (views_endpoint E t i), HttpGet (views_endpoint E t i)]"
  by (simp add: findViewByName_valid [OF assms])

theorem findViewByName_always_fetches_witness:
  "valid_parent_type ''list''
   \<and> snd (findViewByName (sample_env []) ''77'' ''list'' ''Board'' []) = [HttpGet ''/list/77/view'']
   \<and> snd (findViewByName (sample_env []) ''77'' ''list'' ''Roadmap''
             (snd (findViewByName (sample_env []) ''77'' ''list'' ''Board'' [])))
       = [HttpGet ''/list/77/view'', HttpGet ''/list/77/view'']"
proof -
  have h: "valid_parent_type ''list''" by (simp add: valid_parent_type_def)
  have ep: "views_endpoint (sample_env []) ''list'' ''77'' = ''/list/77/view''"
    by (simp add: views_endpoint_def)
  from findViewByName_always_fetches [OF h, of "sample_env []" "''77''" "''Board''" "[]"
      "''Roadmap''", unfolded ep append_Nil] h
  show ?thesis by blast
qed

text \<open>
  C7 (as stated) fails in its last part: two resolutions in space 42, with nothing in
  between, each trigger their own fetch of the views of space 42.
\<close>

theorem repeated_resolution_counterexample:
  "length (filter (\<lambda>c. c = HttpGet ''/space/42/view'')
     (snd (findViewByName (sample_env [mk_view ''v1'' ''Board'']) ''42'' ''space'' ''Roadmap''
        (snd (findViewByName (sample_env [mk_view ''v1'' ''Board'']) ''42'' ''space'' ''Board'' []))))) = 2"
  by (simp add: findViewByName_def getSpaceViews_def sample_env_def io_catch_def io_bind_def
      io_return_def issue_def)

section \<open>Facts about the handlers\<close>










lemma handleUpdateSpace_success:
  assumes "fst (handleUpdateSpace E p log) = Inr (Response r)"
  shows "\<exists>pre c. snd (handleUpdateSpace E p log) = log @ pre @ [c] \<and> is_mutation c"
  using assms
  by (auto simp: handleUpdateSpace_def io_return_def io_throw_def io_bind_def io_catch_def
      findSpaceByName_def updateSpace_def issue_def
      split: if_splits sum.splits prod.splits option.splits)

lemma handleDeleteSpace_success:
  assumes "fst (handleDeleteSpace E p log) = Inr (Response r)"
  shows "\<exists>pre c. snd (handleDeleteSpace E p log) = log @ pre @ [c] \<and> is_mutation c"
  using assms
  by (auto simp: handleDeleteSpace_def io_return_def io_throw_def io_bind_def io_catch_def
      findSpaceByName_def getSpace_def deleteSpace_def issue_def
      split: if_splits sum.splits prod.splits option.splits)

lemma handleCreateSpace_log:
  assumes "truthy_str (csp_name p)"
  shows "\<exists>post. snd (handleCreateSpace E p log) = log @ CreateSpace (createSpaceData p) # post
           \<and> list_all is_space_followup post"
  using assms
  by (auto simp: handleCreateSpace_def io_return_def io_throw_def io_bind_def io_catch_def
      createSpace_def updateSpace_def getSpace_def issue_def
      split: if_splits sum.splits prod.splits option.splits)



lemma buildUpdateViewData_empty_name:
  "buildUpdateViewData (p\<lparr>uvp_name := Some ''''\<rparr>) = (buildUpdateViewData p)\<lparr>uv_name := None\<rparr>"
  "buildUpdateViewData (p\<lparr>uvp_name := None\<rparr>) = (buildUpdateViewData p)\<lparr>uv_name := None\<rparr>"
  by (simp_all add: buildUpdateViewData_def truthy_str_def)

lemma buildUpdateSpaceData_empty_name:
  "buildUpdateSpaceData E (s\<lparr>usp_name := Some ''''\<rparr>) = (buildUpdateSpaceData E s)\<lparr>us_name := None\<rparr>"
  "buildUpdateSpaceData E (s\<lparr>usp_name := None\<rparr>) = (buildUpdateSpaceData E s)\<lparr>us_name := None\<rparr>"
  by (simp_all add: buildUpdateSpaceData_def truthy_str_def)

lemma resolveViewId_ignores_name:
  "resolveViewId E (p\<lparr>uvp_name := x\<rparr>) = resolveViewId E p"
  unfolding resolveViewId_def by (simp cong: if_cong)

section \<open>An empty new name\<close>

lemma handleUpdateView_resolved:
  assumes "resolveViewId E p log = (Inr tid, l1)"
  shows "snd (handleUpdateView E p log)
           = l1 @ [HttpPut (''/view/'' @ tid) (buildUpdateViewData p)]"
  using assms
  by (simp add: handleUpdateView_def updateView_def
      io_return_def io_throw_def io_bind_def io_catch_def issue_def split: sum.splits)

lemma resolveViewId_by_id:
  assumes "viewId p = Some i" and "i \<noteq> []"
  shows "resolveViewId E p log = (Inr i, log)"
  using assms
  by (simp add: resolveViewId_def truthy_str_def io_return_def io_bind_def)

lemma resolveViewId_by_name:
  assumes "\<not> truthy_str (viewId p)" and "viewName p = Some q" and "q \<noteq> []"
    and "parentType p = Some t" and "valid_parent_type t"
    and "resolveParentId E t (parentId p) (parentName p) log = (Inr r, l1)"
    and "views_reply E l1 (views_endpoint E t r) = Inr views"
    and "exact_matches q views = v # vs" and "view_id v \<noteq> []"
  shows "resolveViewId E p log = (Inr (view_id v), l1 @ [HttpGet (views_endpoint E t r)])"
proof -
  have t: "t \<noteq> []" using assms(5) by (auto simp: valid_parent_type_def)
  have f: "findViewByName E r t q l1 = (Inr (Some v), l1 @ [HttpGet (views_endpoint E t r)])"
    using assms(7,8)
    by (simp add: findViewByName_valid [OF assms(5)] find_filter_conv exact_matches_def)
  show ?thesis
    using assms(1,2,3,4,6,9) t f
    by (simp add: resolveViewId_def truthy_str_def io_return_def io_bind_def io_throw_def)
qed

lemma buildUpdateViewData_explicit:
  "buildUpdateViewData (p\<lparr>uvp_name := Some ''''\<rparr>) =
     \<lparr>uv_name = None,
      uv_grouping =
        (case uvp_groupBy p of
           None \<Rightarrow> None
         | Some g \<Rightarrow>
             if g = [] then None
             else Some \<lparr>grouping_field = g,
                        grouping_dir = (case uvp_groupDirection p of
                                          None \<Rightarrow> 1
                                        | Some k \<Rightarrow> if k = 0 then 1 else k)\<rparr>),
      uv_filters =
        (case uvp_filters p of
           None \<Rightarrow> None
         | Some f \<Rightarrow>
             Some \<lparr>op = (case filters_operator f of
                           None \<Rightarrow> ''AND''
                         | Some x \<Rightarrow> if x = [] then ''AND'' else x),
                   filters = (case filters_conditions f of
                                None \<Rightarrow> []
                              | Some cs \<Rightarrow>
                                  map (\<lambda>c. \<lparr>filter_field = field c, filter_op = operator c,
                                             filter_value = value c\<rparr>) cs)\<rparr>),
      uv_columns =
        (case uvp_columns p of
           None \<Rightarrow> None
         | Some c \<Rightarrow> if truthy c then Some c else None),
      uv_settings =
        (case uvp_settings p of
           None \<Rightarrow> None
         | Some x \<Rightarrow>
             Some \<lparr>show_task_locations = showTaskLocations x,
                   show_subtasks = showSubtasks x,
                   show_assignees = showAssignees x,
                   show_images = showImages x,
                   me_mode = meMode x\<rparr>)\<rparr>"
  by (simp add: buildUpdateViewData_def build_grouping_def build_filters_def
      build_columns_def build_settings_def truthy_str_def truthy_num_def truthy_opt_def
      split: option.splits)

lemma buildUpdateSpaceData_explicit:
  "buildUpdateSpaceData E (s\<lparr>usp_name := Some ''''\<rparr>) =
     \<lparr>us_name = None,
      us_color =
        (case usp_color s of
           None \<Rightarrow> None
         | Some c \<Rightarrow>
             if c = [] then None
             else Some (case processColorCommand E c of
                          None \<Rightarrow> c
                        | Some colorResult \<Rightarrow> background colorResult)),
      us_private = usp_private s,
      us_admin_can_manage = usp_adminCanManage s,
      us_multiple_assignees = usp_multipleAssignees s,
      us_features = convertFeaturesToAPI (usp_features s)\<rparr>"
  by (simp add: buildUpdateSpaceData_def colorHex_def truthy_str_def split: option.splits)

lemma handleUpdateSpace_by_id:
  assumes "spaceId s = Some i" and "i \<noteq> []"
  shows "snd (handleUpdateSpace E s log) = log @ [UpdateSpace i (buildUpdateSpaceData E s)]"
  using assms
  by (simp add: handleUpdateSpace_def truthy_str_def updateSpace_def
      io_return_def io_throw_def io_bind_def io_catch_def issue_def split: sum.splits)

lemma handleUpdateSpace_by_name:
  assumes "\<not> truthy_str (spaceId s)" and "spaceName s = Some sn" and "sn \<noteq> []"
    and "findSpaceByName_reply E log sn = Inr (Some sp)" and "space_id sp \<noteq> []"
  shows "snd (handleUpdateSpace E s log)
           = log @ [FindSpaceByName sn, UpdateSpace (space_id sp) (buildUpdateSpaceData E s)]"
  using assms
  by (simp add: handleUpdateSpace_def truthy_str_def updateSpace_def findSpaceByName_def
      io_return_def io_throw_def io_bind_def io_catch_def issue_def split: sum.splits)


text \<open>
  C10. An empty \<open>name\<close> parameter is treated as an absent one by \<open>handleUpdateView\<close>
  and by \<open>handleUpdateSpace\<close>: the handler behaves, call for call and in its answer,
  as it does without the parameter. Whether the target is given by id or found by name,
  the update request it sends has no name, and each other field of the request is what
  the corresponding parameter supplies: grouping, filters, columns and settings for a
  view; colour, privacy, admin and assignee flags and features for a space.
\<close>

theorem empty_name_is_no_name:
  fixes E :: env and p :: UpdateViewParams and s :: UpdateSpaceParams
  defines "view_request \<equiv>
     \<lparr>uv_name = None,
      uv_grouping =
        (case uvp_groupBy p of
           None \<Rightarrow> None
         | Some g \<Rightarrow>
             if g = [] then None
             else Some \<lparr>grouping_field = g,
                        grouping_dir = (case uvp_groupDirection p of
                                          None \<Rightarrow> 1
                                        | Some k \<Rightarrow> if k = 0 then 1 else k)\<rparr>),
      uv_filters =
        (case uvp_filters p of
           None \<Rightarrow> None
         | Some f \<Rightarrow>
             Some \<lparr>op = (case filters_operator f of
                           None \<Rightarrow> ''AND''
                         | Some x \<Rightarrow> if x = [] then ''AND'' else x),
                   filters = (case filters_conditions f of
                                None \<Rightarrow> []
                              | Some cs \<Rightarrow>
                                  map (\<lambda>c. \<lparr>filter_field = field c, filter_op = operator c,
                                             filter_value = value c\<rparr>) cs)\<rparr>),
      uv_columns =
        (case uvp_columns p of
           None \<Rightarrow> None
         | Some c \<Rightarrow> if truthy c then Some c else None),
      uv_settings =
        (case uvp_settings p of
           None \<Rightarrow> None
         | Some x \<Rightarrow>
             Some \<lparr>show_task_locations = showTaskLocations x,
                   show_subtasks = showSubtasks x,
                   show_assignees = showAssignees x,
                   show_images = showImages x,
                   me_mode = meMode x\<rparr>)\<rparr>"
    and "space_request \<equiv>
     \<lparr>us_name = None,
      us_color =
        (case usp_color s of
           None \<Rightarrow> None
         | Some c \<Rightarrow>
             if c = [] then None
             else Some (case processColorCommand E c of
                          None \<Rightarrow> c
                        | Some colorResult \<Rightarrow> background colorResult)),
      us_private = usp_private s,
      us_admin_can_manage = usp_adminCanManage s,
      us_multiple_assignees = usp_multipleAssignees s,
      us_features = convertFeaturesToAPI (usp_features s)\<rparr>"
  shows "handleUpdateView E (p\<lparr>uvp_name := Some ''''\<rparr>) log
           = handleUpdateView E (p\<lparr>uvp_name := None\<rparr>) log
       \<and> handleUpdateSpace E (s\<lparr>usp_name := Some ''''\<rparr>) log
           = handleUpdateSpace E (s\<lparr>usp_name := None\<rparr>) log
       \<and> (viewId p = Some i \<and> i \<noteq> [] \<longrightarrow>
            snd (handleUpdateView E (p\<lparr>uvp_name := Some ''''\<rparr>) log)
              = log @ [HttpPut (''/view/'' @ i) view_request])
       \<and> (\<not> truthy_str (viewId p) \<and> viewName p = Some q \<and> q \<noteq> []
            \<and> parentType p = Some t \<and> valid_parent_type t
            \<and> resolveParentId E t (parentId p) (parentName p) log = (Inr r, l1)
            \<and> views_reply E l1 (views_endpoint E t r) = Inr views
            \<and> exact_matches q views = v # vs \<and> view_id v \<noteq> [] \<longrightarrow>
            snd (handleUpdateView E (p\<lparr>uvp_name := Some ''''\<rparr>) log)
              = l1 @ [HttpGet (views_endpoint E t r),
                      HttpPut (''/view/'' @ view_id v) view_request])
       \<and> (spaceId s = Some j \<and> j \<noteq> [] \<longrightarrow>
            snd (handleUpdateSpace E (s\<lparr>usp_name := Some ''''\<rparr>) log)
              = log @ [UpdateSpace j space_request])
       \<and> (\<not> truthy_str (spaceId s) \<and> spaceName s = Some sn \<and> sn \<noteq> []
            \<and> findSpaceByName_reply E log sn = Inr (Some sp) \<and> space_id sp \<noteq> [] \<longrightarrow>
            snd (handleUpdateSpace E (s\<lparr>usp_name := Some ''''\<rparr>) log)
              = log @ [FindSpaceByName sn, UpdateSpace (space_id sp) space_request])"
proof (intro conjI impI)
  show "handleUpdateView E (p\<lparr>uvp_name := Some ''''\<rparr>) log
     = handleUpdateView E (p\<lparr>uvp_name := None\<rparr>) log"
    unfolding handleUpdateView_def
    by (simp add: resolveViewId_ignores_name buildUpdateViewData_empty_name cong: if_cong)
  show "handleUpdateSpace E (s\<lparr>usp_name := Some ''''\<rparr>) log
     = handleUpdateSpace E (s\<lparr>usp_name := None\<rparr>) log"
    unfolding handleUpdateSpace_def
    by (simp add: buildUpdateSpaceData_empty_name cong: if_cong)
next
  assume a: "viewId p = Some i \<and> i \<noteq> []"
  then have "resolveViewId E (p\<lparr>uvp_name := Some ''''\<rparr>) log = (Inr i, log)"
    by (simp add: resolveViewId_by_id)
  from handleUpdateView_resolved [OF this]
  show "snd (handleUpdateView E (p\<lparr>uvp_name := Some ''''\<rparr>) log)
              = log @ [HttpPut (''/view/'' @ i) view_request]"
    by (simp add: buildUpdateViewData_explicit view_request_def)
next
  assume a: "\<not> truthy_str (viewId p) \<and> viewName p = Some q \<and> q \<noteq> []
            \<and> parentType p = Some t \<and> valid_parent_type t
            \<and> resolveParentId E t (parentId p) (parentName p) log = (Inr r, l1)
            \<and> views_reply E l1 (views_endpoint E t r) = Inr views
            \<and> exact_matches q views = v # vs \<and> view_id v \<noteq> []"
  then have "resolveViewId E (p\<lparr>uvp_name := Some ''''\<rparr>) log
      = (Inr (view_id v), l1 @ [HttpGet (views_endpoint E t r)])"
    by (intro resolveViewId_by_name [where q = q and t = t and views = views and vs = vs])
      simp_all
  from handleUpdateView_resolved [OF this]
  show "snd (handleUpdateView E (p\<lparr>uvp_name := Some ''''\<rparr>) log)
              = l1 @ [HttpGet (views_endpoint E t r),
                      HttpPut (''/view/'' @ view_id v) view_request]"
    by (simp add: buildUpdateViewData_explicit view_request_def)
next
  assume "spaceId s = Some j \<and> j \<noteq> []"
  then have "spaceId (s\<lparr>usp_name := Some ''''\<rparr>) = Some j" "j \<noteq> []"
    by simp_all
  from handleUpdateSpace_by_id [OF this]
  show "snd (handleUpdateSpace E (s\<lparr>usp_name := Some ''''\<rparr>) log)
              = log @ [UpdateSpace j space_request]"
    by (simp add: buildUpdateSpaceData_explicit space_request_def)
next
  assume a: "\<not> truthy_str (spaceId s) \<and> spaceName s = Some sn \<and> sn \<noteq> []
            \<and> findSpaceByName_reply E log sn = Inr (Some sp) \<and> space_id sp \<noteq> []"
  then have "snd (handleUpdateSpace E (s\<lparr>usp_name := Some ''''\<rparr>) log)
           = log @ [FindSpaceByName sn,
                    UpdateSpace (space_id sp) (buildUpdateSpaceData E (s\<lparr>usp_name := Some ''''\<rparr>))]"
    by (intro handleUpdateSpace_by_name) simp_all
  then show "snd (handleUpdateSpace E (s\<lparr>usp_name := Some ''''\<rparr>) log)
              = log @ [FindSpaceByName sn, UpdateSpace (space_id sp) space_request]"
    by (simp add: buildUpdateSpaceData_explicit space_request_def)
qed


theorem empty_name_is_no_name_witness:
  "viewId sample_update_view = Some ''v100'' \<and> ''v100'' \<noteq> []
   \<and> snd (handleUpdateView directory_env (sample_update_view\<lparr>uvp_name := Some ''''\<rparr>) [])
      = [HttpPut ''/view/v100''
           \<lparr>uv_name = None,
            uv_grouping = Some \<lparr>grouping_field = ''status'', grouping_dir = 1\<rparr>,
            uv_filters = None, uv_columns = None, uv_settings = None\<rparr>]
   \<and> \<not> truthy_str (viewId sample_update_view_by_name)
   \<and> viewName sample_update_view_by_name = Some ''Kanban''
   \<and> parentType sample_update_view_by_name = Some ''space'' \<and> valid_parent_type ''space''
   \<and> resolveParentId directory_env ''space'' (parentId sample_update_view_by_name)
         (parentName sample_update_view_by_name) [] = (Inr ''42'', [])
   \<and> views_reply directory_env [] (views_endpoint directory_env ''space'' ''42'')
       = Inr [mk_view ''v7'' ''Kanban'']
   \<and> exact_matches ''Kanban'' [mk_view ''v7'' ''Kanban''] = [mk_view ''v7'' ''Kanban'']
   \<and> snd (handleUpdateView directory_env
              (sample_update_view_by_name\<lparr>uvp_name := Some ''''\<rparr>) [])
      = [HttpGet ''/space/42/view'',
         HttpPut ''/view/v7''
           \<lparr>uv_name = None,
            uv_grouping = Some \<lparr>grouping_field = ''status'', grouping_dir = - 1\<rparr>,
            uv_filters = Some \<lparr>op = ''AND'',
              filters = [\<lparr>filter_field = Some (JStr ''priority''),
                          filter_op = Some (JStr ''equals''),
                          filter_value = Some (JNum 1)\<rparr>]\<rparr>,
            uv_columns = Some (JArr [JStr ''assignee'']),
            uv_settings = Some \<lparr>show_task_locations = Some True, show_subtasks = Some 2,
              show_assignees = None, show_images = None, me_mode = Some False\<rparr>\<rparr>]
   \<and> spaceId sample_update_space = Some ''s1'' \<and> ''s1'' \<noteq> []
   \<and> snd (handleUpdateSpace directory_env (sample_update_space\<lparr>usp_name := Some ''''\<rparr>) [])
      = [UpdateSpace ''s1''
           \<lparr>us_name = None, us_color = None, us_private = Some True,
            us_admin_can_manage = None, us_multiple_assignees = None,
            us_features = None\<rparr>]
   \<and> \<not> truthy_str (spaceId sample_update_space_by_name)
   \<and> spaceName sample_update_space_by_name = Some ''Eng''
   \<and> findSpaceByName_reply directory_env [] ''Eng'' = Inr (Some (mk_space ''s1'' (Some ''Eng'')))
   \<and> snd (handleUpdateSpace directory_env
              (sample_update_space_by_name\<lparr>usp_name := Some ''''\<rparr>) [])
      = [FindSpaceByName ''Eng'',
         UpdateSpace ''s1''
           \<lparr>us_name = None, us_color = Some ''#00ff00'', us_private = Some True,
            us_admin_can_manage = Some False, us_multiple_assignees = Some True,
            us_features = Some \<lparr>due_dates = None,
              time_tracking = Some (JObj [(''enabled'', JBool True)]),
              api_tags = None, time_estimates = None, api_checklists = None,
              custom_fields = None, remap_dependencies = None, dependency_warning = None,
              api_portfolios = None\<rparr>\<rparr>]"
proof -
  let ?E = directory_env
  have a1: "viewId sample_update_view = Some ''v100''" "''v100'' \<noteq> []"
    by (simp_all add: sample_update_view_def)
  have b1: "\<not> truthy_str (viewId sample_update_view_by_name)"
    "viewName sample_update_view_by_name = Some ''Kanban''" "''Kanban'' \<noteq> []"
    "parentType sample_update_view_by_name = Some ''space''" "valid_parent_type ''space''"
    by (simp_all add: sample_update_view_by_name_def truthy_str_def valid_parent_type_def)
  have b2: "resolveParentId ?E ''space'' (parentId sample_update_view_by_name)
         (parentName sample_update_view_by_name) [] = (Inr ''42'', [])"
    by (simp add: sample_update_view_by_name_def resolveParentId_def truthy_str_def
        io_return_def)
  have b3: "views_reply ?E [] (views_endpoint ?E ''space'' ''42'') = Inr [mk_view ''v7'' ''Kanban'']"
    by (simp add: directory_env_def sample_env_def)
  have b4: "exact_matches ''Kanban'' [mk_view ''v7'' ''Kanban''] = [mk_view ''v7'' ''Kanban'']"
    by (simp add: exact_matches_def mk_view_def)
  have b5: "view_id (mk_view ''v7'' ''Kanban'') \<noteq> []" "view_id (mk_view ''v7'' ''Kanban'') = ''v7''"
    by (simp_all add: mk_view_def)
  have ep: "views_endpoint ?E ''space'' ''42'' = ''/space/42/view''"
    by (simp add: views_endpoint_def)
  have c1: "spaceId sample_update_space = Some ''s1''" "''s1'' \<noteq> []"
    by (simp_all add: sample_update_space_def)
  have d1: "\<not> truthy_str (spaceId sample_update_space_by_name)"
    "spaceName sample_update_space_by_name = Some ''Eng''" "''Eng'' \<noteq> []"
    by (simp_all add: sample_update_space_by_name_def truthy_str_def)
  have d2: "findSpaceByName_reply ?E [] ''Eng'' = Inr (Some (mk_space ''s1'' (Some ''Eng'')))"
    by (simp add: directory_env_def)
  have d3: "space_id (mk_space ''s1'' (Some ''Eng'')) \<noteq> []"
    "space_id (mk_space ''s1'' (Some ''Eng'')) = ''s1''"
    by (simp_all add: mk_space_def)
  have pc: "processColorCommand ?E = (\<lambda>c. None)"
    by (simp add: directory_env_def sample_env_def)
  note inst1 = empty_name_is_no_name [where E = ?E and log = "[]" and p = sample_update_view
      and s = sample_update_space and i = "''v100''" and j = "''s1''"]
  note inst2 = empty_name_is_no_name [where E = ?E and log = "[]"
      and p = sample_update_view_by_name and s = sample_update_space_by_name
      and q = "''Kanban''" and t = "''space''" and r = "''42''" and ?l1.0 = "[]"
      and views = "[mk_view ''v7'' ''Kanban'']" and v = "mk_view ''v7'' ''Kanban''" and vs = "[]"
      and sn = "''Eng''" and sp = "mk_space ''s1'' (Some ''Eng'')"]
  note by_id = inst1 [THEN conjunct2, THEN conjunct2, THEN conjunct1, rule_format]
  note by_name = inst2 [THEN conjunct2, THEN conjunct2, THEN conjunct2, THEN conjunct1,
      rule_format]
  note space_by_id = inst1 [THEN conjunct2, THEN conjunct2, THEN conjunct2, THEN conjunct2,
      THEN conjunct1, rule_format]
  note space_by_name = inst2 [THEN conjunct2, THEN conjunct2, THEN conjunct2, THEN conjunct2,
      THEN conjunct2, rule_format]
  from by_id a1 have r1:
    "snd (handleUpdateView ?E (sample_update_view\<lparr>uvp_name := Some ''''\<rparr>) [])
      = [HttpPut ''/view/v100''
           \<lparr>uv_name = None,
            uv_grouping = Some \<lparr>grouping_field = ''status'', grouping_dir = 1\<rparr>,
            uv_filters = None, uv_columns = None, uv_settings = None\<rparr>]"
    by (simp add: sample_update_view_def)
  from space_by_id c1 have r3:
    "snd (handleUpdateSpace ?E (sample_update_space\<lparr>usp_name := Some ''''\<rparr>) [])
      = [UpdateSpace ''s1''
           \<lparr>us_name = None, us_color = None, us_private = Some True,
            us_admin_can_manage = None, us_multiple_assignees = None,
            us_features = None\<rparr>]"
    by (simp add: sample_update_space_def convertFeaturesToAPI_def)
  from by_name b1 b2 b3 b4 b5(1) have
    "snd (handleUpdateView ?E (sample_update_view_by_name\<lparr>uvp_name := Some ''''\<rparr>) [])
      = [] @ [HttpGet (views_endpoint ?E ''space'' ''42''),
         HttpPut (''/view/'' @ view_id (mk_view ''v7'' ''Kanban''))
           \<lparr>uv_name = None,
            uv_grouping = Some \<lparr>grouping_field = ''status'', grouping_dir = - 1\<rparr>,
            uv_filters = Some \<lparr>op = ''AND'',
              filters = [\<lparr>filter_field = Some (JStr ''priority''),
                          filter_op = Some (JStr ''equals''),
                          filter_value = Some (JNum 1)\<rparr>]\<rparr>,
            uv_columns = Some (JArr [JStr ''assignee'']),
            uv_settings = Some \<lparr>show_task_locations = Some True, show_subtasks = Some 2,
              show_assignees = None, show_images = None, me_mode = Some False\<rparr>\<rparr>]"
    by (simp add: sample_update_view_by_name_def)
  then have r2:
    "snd (handleUpdateView ?E (sample_update_view_by_name\<lparr>uvp_name := Some ''''\<rparr>) [])
      = [HttpGet ''/space/42/view'',
         HttpPut ''/view/v7''
           \<lparr>uv_name = None,
            uv_grouping = Some \<lparr>grouping_field = ''status'', grouping_dir = - 1\<rparr>,
            uv_filters = Some \<lparr>op = ''AND'',
              filters = [\<lparr>filter_field = Some (JStr ''priority''),
                          filter_op = Some (JStr ''equals''),
                          filter_value = Some (JNum 1)\<rparr>]\<rparr>,
            uv_columns = Some (JArr [JStr ''assignee'']),
            uv_settings = Some \<lparr>show_task_locations = Some True, show_subtasks = Some 2,
              show_assignees = None, show_images = None, me_mode = Some False\<rparr>\<rparr>]"
    by (simp add: ep b5)
  from space_by_name d1 d2 d3(1) have
    "snd (handleUpdateSpace ?E (sample_update_space_by_name\<lparr>usp_name := Some ''''\<rparr>) [])
      = [] @ [FindSpaceByName ''Eng'',
         UpdateSpace (space_id (mk_space ''s1'' (Some ''Eng'')))
           \<lparr>us_name = None, us_color = Some ''#00ff00'', us_private = Some True,
            us_admin_can_manage = Some False, us_multiple_assignees = Some True,
            us_features = Some \<lparr>due_dates = None,
              time_tracking = Some (JObj [(''enabled'', JBool True)]),
              api_tags = None, time_estimates = None, api_checklists = None,
              custom_fields = None, remap_dependencies = None, dependency_warning = None,
              api_portfolios = None\<rparr>\<rparr>]"
    by (simp add: sample_update_space_by_name_def pc convertFeaturesToAPI_def keep_truthy_def
        truthy_opt_def)
  then have r4:
    "snd (handleUpdateSpace ?E (sample_update_space_by_name\<lparr>usp_name := Some ''''\<rparr>) [])
      = [FindSpaceByName ''Eng'',
         UpdateSpace ''s1''
           \<lparr>us_name = None, us_color = Some ''#00ff00'', us_private = Some True,
            us_admin_can_manage = Some False, us_multiple_assignees = Some True,
            us_features = Some \<lparr>due_dates = None,
              time_tracking = Some (JObj [(''enabled'', JBool True)]),
              api_tags = None, time_estimates = None, api_checklists = None,
              custom_fields = None, remap_dependencies = None, dependency_warning = None,
              api_portfolios = None\<rparr>\<rparr>]"
    by (simp add: d3)
  from a1 b1 b2 b3 b4 c1 d1 d2 r1 r2 r3 r4 show ?thesis
    by blast
qed

section \<open>Creating a space\<close>

lemma createSpaceData_explicit:
  assumes "csp_name p = Some n"
  shows "createSpaceData p
           = \<lparr>cs_name = n, cs_multiple_assignees = csp_multipleAssignees p,
              cs_features = convertFeaturesToAPI (csp_features p)\<rparr>"
  using assms by (simp add: createSpaceData_def)

lemma createSpaceUpdate_explicit:
  assumes "csp_name p = Some n" and "n \<noteq> []"
  shows "createSpaceUpdate E p s0
           = \<lparr>us_name = (if space_name s0 = Some n then None else Some n),
              us_color = (case csp_color p of
                            None \<Rightarrow> None
                          | Some c \<Rightarrow>
                              if c = [] then None
                              else Some (case processColorCommand E c of
                                           None \<Rightarrow> c
                                         | Some x \<Rightarrow> background x)),
              us_private = csp_private p,
              us_admin_can_manage = None,
              us_multiple_assignees = None,
              us_features = None\<rparr>"
  using assms
  by (auto simp: createSpaceUpdate_def truthy_str_def colorHex_def split: option.splits)

lemma has_keys_createSpaceUpdate:
  assumes "csp_name p = Some n" and "n \<noteq> []"
  shows "has_keys (createSpaceUpdate E p s0)
           \<longleftrightarrow> truthy_str (csp_color p) \<or> csp_private p \<noteq> None \<or> space_name s0 \<noteq> Some n"
  using assms
  by (auto simp: has_keys_def createSpaceUpdate_def truthy_str_def split: option.splits)

lemma handleCreateSpace_unfold:
  assumes "csp_name p = Some n" and "n \<noteq> []"
    and "space_reply E log (CreateSpace (createSpaceData p)) = Inr s0"
  shows "handleCreateSpace E p log =
     (let l1 = log @ [CreateSpace (createSpaceData p)];
          u = createSpaceUpdate E p s0
      in case (if has_keys u
               then (space_reply E l1 (UpdateSpace (space_id s0) u),
                     l1 @ [UpdateSpace (space_id s0) u])
               else (Inr s0, l1)) of
           (Inl e, l2) \<Rightarrow> (Inr (ErrorResponse (''Failed to create space: '' @ message e)), l2)
         | (Inr s1, l2) \<Rightarrow>
             (if space_name s1 = Some n then (Inr (createSpaceResponse E p s1), l2)
              else case space_reply E l2 (GetSpace (space_id s1)) of
                     Inl e \<Rightarrow> (Inr (ErrorResponse (''Failed to create space: '' @ message e)),
                               l2 @ [GetSpace (space_id s1)])
                   | Inr s2 \<Rightarrow> (Inr (createSpaceResponse E p s2),
                                l2 @ [GetSpace (space_id s1)])))"
  using assms
  by (auto simp: handleCreateSpace_def truthy_str_def createSpace_def updateSpace_def
      getSpace_def issue_def io_bind_def io_catch_def io_return_def io_throw_def Let_def
      split: sum.splits)


text \<open>
  C9 (as the code has it). With a name given, the first call of \<open>handleCreateSpace\<close> is
  the creation, and its request carries the name, the multiple-assignees flag and the
  converted features, nothing else. When the creation succeeds and neither a non-empty
  colour nor a privacy setting was given and the created space reports the requested
  name, the handler answers from the created space without a further call. Otherwise
  the next call is an update of the created space's id that carries the name (when it
  was not reported), the colour and the privacy setting, followed by at most one read
  of the space. The answer is built from the space the last successful call returned:
  the updated space when it reports the requested name, else the space read back; its
  name field is the name that space reports, and the requested name when it reports
  none.
\<close>

theorem create_space_follow_up:
  fixes E :: env and p :: CreateSpaceParams and s0 s1 s2 :: ClickUpSpace
    and log :: "call list" and n :: string
  assumes name: "csp_name p = Some n" and nonempty: "n \<noteq> []"
  defines "creation \<equiv>
     \<lparr>cs_name = n, cs_multiple_assignees = csp_multipleAssignees p,
      cs_features = convertFeaturesToAPI (csp_features p)\<rparr>"
  defines "follow_up \<equiv>
     \<lparr>us_name = (if space_name s0 = Some n then None else Some n),
      us_color = (case csp_color p of
                    None \<Rightarrow> None
                  | Some c \<Rightarrow>
                      if c = [] then None
                      else Some (case processColorCommand E c of
                                   None \<Rightarrow> c
                                 | Some x \<Rightarrow> background x)),
      us_private = csp_private p,
      us_admin_can_manage = None,
      us_multiple_assignees = None,
      us_features = None\<rparr>"
  defines "needed \<equiv> truthy_str (csp_color p) \<or> csp_private p \<noteq> None \<or> space_name s0 \<noteq> Some n"
  defines "l1 \<equiv> log @ [CreateSpace creation]"
  defines "l2 \<equiv> log @ [CreateSpace creation, UpdateSpace (space_id s0) follow_up]"
  defines "answer \<equiv> \<lambda>sp nm.
       Response (SpaceCreated (space_id sp) nm (space_private sp) (space_features sp)
         (''https://app.clickup.com/'' @ clickupTeamId E @ ''/v/s/'' @ space_id sp)
         (''Space '' @ quoted nm @ '' created successfully''))"
  shows "(\<exists>post. snd (handleCreateSpace E p log) = l1 @ post)
       \<and> (space_reply E log (CreateSpace creation) = Inr s0 \<and> \<not> needed \<longrightarrow>
            handleCreateSpace E p log = (Inr (answer s0 n), l1))
       \<and> (space_reply E log (CreateSpace creation) = Inr s0 \<and> needed \<longrightarrow>
            (\<exists>post. snd (handleCreateSpace E p log) = l2 @ post
               \<and> (post = [] \<or> (\<exists>i. post = [GetSpace i]))))
       \<and> (space_reply E log (CreateSpace creation) = Inr s0 \<and> needed
            \<and> space_reply E l1 (UpdateSpace (space_id s0) follow_up) = Inr s1
            \<and> space_name s1 = Some n \<longrightarrow>
            handleCreateSpace E p log = (Inr (answer s1 n), l2))
       \<and> (space_reply E log (CreateSpace creation) = Inr s0 \<and> needed
            \<and> space_reply E l1 (UpdateSpace (space_id s0) follow_up) = Inr s1
            \<and> space_name s1 \<noteq> Some n
            \<and> space_reply E l2 (GetSpace (space_id s1)) = Inr s2
            \<and> truthy_str (space_name s2) \<longrightarrow>
            handleCreateSpace E p log
              = (Inr (answer s2 (the (space_name s2))), l2 @ [GetSpace (space_id s1)]))
       \<and> (space_reply E log (CreateSpace creation) = Inr s0 \<and> needed
            \<and> space_reply E l1 (UpdateSpace (space_id s0) follow_up) = Inr s1
            \<and> space_name s1 \<noteq> Some n
            \<and> space_reply E l2 (GetSpace (space_id s1)) = Inr s2
            \<and> \<not> truthy_str (space_name s2) \<longrightarrow>
            handleCreateSpace E p log = (Inr (answer s2 n), l2 @ [GetSpace (space_id s1)]))"
proof -
  have d: "createSpaceData p = creation"
    using name by (simp add: createSpaceData_explicit creation_def)
  have u: "createSpaceUpdate E p s0 = follow_up"
    using name nonempty by (simp add: createSpaceUpdate_explicit follow_up_def)
  have k: "has_keys follow_up \<longleftrightarrow> needed"
    using has_keys_createSpaceUpdate [OF name nonempty, of E s0] by (simp add: u needed_def)
  have t: "truthy_str (csp_name p)"
    using name nonempty by (simp add: truthy_str_def)
  have a: "\<And>sp. truthy_str (space_name sp) \<Longrightarrow>
             createSpaceResponse E p sp = answer sp (the (space_name sp))"
    by (simp add: createSpaceResponse_def answer_def Let_def)
  have b: "\<And>sp. \<not> truthy_str (space_name sp) \<Longrightarrow> createSpaceResponse E p sp = answer sp n"
    using name by (simp add: createSpaceResponse_def answer_def Let_def)
  have c: "\<And>sp. space_name sp = Some n \<Longrightarrow> createSpaceResponse E p sp = answer sp n"
    using a nonempty by (simp add: truthy_str_def)
  note unf = handleCreateSpace_unfold [OF name nonempty, of E log s0, unfolded d u]
  have first: "\<exists>post. snd (handleCreateSpace E p log) = l1 @ post"
    using handleCreateSpace_log [OF t, of E log] by (auto simp: d l1_def)
  have p1: "space_reply E log (CreateSpace creation) = Inr s0 \<and> \<not> needed \<longrightarrow>
            handleCreateSpace E p log = (Inr (answer s0 n), l1)"
    using unf k c by (auto simp: needed_def l1_def Let_def)
  have upd: "space_reply E log (CreateSpace creation) = Inr s0 \<and> needed \<longrightarrow>
            (\<exists>post. snd (handleCreateSpace E p log) = l2 @ post
               \<and> (post = [] \<or> (\<exists>i. post = [GetSpace i])))"
    using unf k by (auto simp: l2_def Let_def split: sum.splits)
  have p2: "space_reply E log (CreateSpace creation) = Inr s0 \<and> needed
            \<and> space_reply E l1 (UpdateSpace (space_id s0) follow_up) = Inr s1
            \<and> space_name s1 = Some n \<longrightarrow>
            handleCreateSpace E p log = (Inr (answer s1 n), l2)"
    using unf k c by (auto simp: l1_def l2_def Let_def)
  have p3: "space_reply E log (CreateSpace creation) = Inr s0 \<and> needed
            \<and> space_reply E l1 (UpdateSpace (space_id s0) follow_up) = Inr s1
            \<and> space_name s1 \<noteq> Some n
            \<and> space_reply E l2 (GetSpace (space_id s1)) = Inr s2
            \<and> truthy_str (space_name s2) \<longrightarrow>
            handleCreateSpace E p log
              = (Inr (answer s2 (the (space_name s2))), l2 @ [GetSpace (space_id s1)])"
    using unf k a by (auto simp: l1_def l2_def Let_def)
  have p4: "space_reply E log (CreateSpace creation) = Inr s0 \<and> needed
            \<and> space_reply E l1 (UpdateSpace (space_id s0) follow_up) = Inr s1
            \<and> space_name s1 \<noteq> Some n
            \<and> space_reply E l2 (GetSpace (space_id s1)) = Inr s2
            \<and> \<not> truthy_str (space_name s2) \<longrightarrow>
            handleCreateSpace E p log = (Inr (answer s2 n), l2 @ [GetSpace (space_id s1)])"
    using unf k b by (auto simp: l1_def l2_def Let_def)
  from first p1 upd p2 p3 p4 show ?thesis
    by blast
qed


text \<open>
  C9 (as stated) fails for a colour that is supplied but empty: \<open>if (color)\<close> takes the
  empty string for no colour, so with no privacy setting and the name echoed by the
  remote system the handler issues the creation and no update.
\<close>

theorem create_space_empty_color_counterexample:
  "csp_color (sample_create_space\<lparr>csp_color := Some ''''\<rparr>) = Some ''''
   \<and> snd (handleCreateSpace recording_env (sample_create_space\<lparr>csp_color := Some ''''\<rparr>) [])
      = [CreateSpace \<lparr>cs_name = ''Eng'', cs_multiple_assignees = Some True,
                       cs_features = None\<rparr>]"
  by (simp add: handleCreateSpace_def sample_create_space_def recording_env_def sample_env_def
      createSpace_def createSpaceData_def createSpaceUpdate_def has_keys_def
      convertFeaturesToAPI_def truthy_str_def mk_space_def
      io_return_def io_throw_def io_bind_def io_catch_def issue_def)

theorem create_space_follow_up_witness:
  "csp_name sample_create_space = Some ''Eng'' \<and> ''Eng'' \<noteq> []
   \<and> space_reply nameless_env []
        (CreateSpace \<lparr>cs_name = ''Eng'', cs_multiple_assignees = Some True,
                       cs_features = None\<rparr>) = Inr (mk_space ''s100'' None)
   \<and> truthy_str (csp_color sample_create_space)
   \<and> \<not> truthy_str (space_name (mk_space ''s100'' None))
   \<and> handleCreateSpace nameless_env sample_create_space []
      = (Inr (Response (SpaceCreated ''s100'' ''Eng'' (Some False) None
                ''https://app.clickup.com/9001/v/s/s100''
                (''Space '' @ quoted ''Eng'' @ '' created successfully''))),
         [CreateSpace \<lparr>cs_name = ''Eng'', cs_multiple_assignees = Some True,
                        cs_features = None\<rparr>,
          UpdateSpace ''s100''
            \<lparr>us_name = Some ''Eng'', us_color = Some ''#ff0000'', us_private = None,
             us_admin_can_manage = None, us_multiple_assignees = None, us_features = None\<rparr>,
          GetSpace ''s100''])
   \<and> handleCreateSpace late_name_env sample_create_space []
      = (Inr (Response (SpaceCreated ''s100'' ''Eng'' (Some False) None
                ''https://app.clickup.com/9001/v/s/s100''
                (''Space '' @ quoted ''Eng'' @ '' created successfully''))),
         [CreateSpace \<lparr>cs_name = ''Eng'', cs_multiple_assignees = Some True,
                        cs_features = None\<rparr>,
          UpdateSpace ''s100''
            \<lparr>us_name = Some ''Eng'', us_color = Some ''#ff0000'', us_private = None,
             us_admin_can_manage = None, us_multiple_assignees = None, us_features = None\<rparr>])
   \<and> handleCreateSpace recording_env sample_create_space []
      = (Inr (Response (SpaceCreated ''s100'' ''Old'' (Some False) None
                ''https://app.clickup.com/9001/v/s/s100''
                (''Space '' @ quoted ''Old'' @ '' created successfully''))),
         [CreateSpace \<lparr>cs_name = ''Eng'', cs_multiple_assignees = Some True,
                        cs_features = None\<rparr>,
          UpdateSpace ''s100''
            \<lparr>us_name = None, us_color = Some ''#ff0000'', us_private = None,
             us_admin_can_manage = None, us_multiple_assignees = None, us_features = None\<rparr>,
          GetSpace ''s100''])
   \<and> handleCreateSpace recording_env (sample_create_space\<lparr>csp_color := None\<rparr>) []
      = (Inr (Response (SpaceCreated ''s100'' ''Eng'' (Some False) None
                ''https://app.clickup.com/9001/v/s/s100''
                (''Space '' @ quoted ''Eng'' @ '' created successfully''))),
         [CreateSpace \<lparr>cs_name = ''Eng'', cs_multiple_assignees = Some True,
                        cs_features = None\<rparr>])"
proof -
  have nm: "csp_name sample_create_space = Some ''Eng''"
    "csp_name (sample_create_space\<lparr>csp_color := None\<rparr>) = Some ''Eng''"
    by (simp_all add: sample_create_space_def)
  have ne: "''Eng'' \<noteq> []" by simp
  have h1: "space_reply nameless_env []
        (CreateSpace \<lparr>cs_name = ''Eng'', cs_multiple_assignees = Some True,
                       cs_features = None\<rparr>) = Inr (mk_space ''s100'' None)"
    by (simp add: nameless_env_def)
  have h2: "truthy_str (csp_color sample_create_space)"
    by (simp add: sample_create_space_def truthy_str_def)
  have h3: "\<not> truthy_str (space_name (mk_space ''s100'' None))"
    by (simp add: mk_space_def truthy_str_def)
  note A = create_space_follow_up [where E = nameless_env and p = sample_create_space
      and log = "[]" and ?s0.0 = "mk_space ''s100'' None" and ?s1.0 = "mk_space ''s100'' None"
      and ?s2.0 = "mk_space ''s100'' None", OF nm(1) ne,
      THEN conjunct2, THEN conjunct2, THEN conjunct2, THEN conjunct2, THEN conjunct2,
      rule_format]
  note B = create_space_follow_up [where E = late_name_env and p = sample_create_space
      and log = "[]" and ?s0.0 = "mk_space ''s100'' None"
      and ?s1.0 = "mk_space ''s100'' (Some ''Eng'')", OF nm(1) ne,
      THEN conjunct2, THEN conjunct2, THEN conjunct2, THEN conjunct1, rule_format]
  note C = create_space_follow_up [where E = recording_env and p = sample_create_space
      and log = "[]" and ?s0.0 = "mk_space ''s100'' (Some ''Eng'')"
      and ?s1.0 = "mk_space ''s100'' (Some ''Old'')"
      and ?s2.0 = "mk_space ''s100'' (Some ''Old'')", OF nm(1) ne,
      THEN conjunct2, THEN conjunct2, THEN conjunct2, THEN conjunct2, THEN conjunct1,
      rule_format]
  note D = create_space_follow_up [where E = recording_env
      and p = "sample_create_space\<lparr>csp_color := None\<rparr>"
      and log = "[]" and ?s0.0 = "mk_space ''s100'' (Some ''Eng'')", OF nm(2) ne,
      THEN conjunct2, THEN conjunct1, rule_format]
  have a: "handleCreateSpace nameless_env sample_create_space []
      = (Inr (Response (SpaceCreated ''s100'' ''Eng'' (Some False) None
                ''https://app.clickup.com/9001/v/s/s100''
                (''Space '' @ quoted ''Eng'' @ '' created successfully''))),
         [CreateSpace \<lparr>cs_name = ''Eng'', cs_multiple_assignees = Some True,
                        cs_features = None\<rparr>,
          UpdateSpace ''s100''
            \<lparr>us_name = Some ''Eng'', us_color = Some ''#ff0000'', us_private = None,
             us_admin_can_manage = None, us_multiple_assignees = None, us_features = None\<rparr>,
          GetSpace ''s100''])"
    using A
    by (simp add: sample_create_space_def nameless_env_def sample_env_def mk_space_def
        truthy_str_def convertFeaturesToAPI_def)
  have b: "handleCreateSpace late_name_env sample_create_space []
      = (Inr (Response (SpaceCreated ''s100'' ''Eng'' (Some False) None
                ''https://app.clickup.com/9001/v/s/s100''
                (''Space '' @ quoted ''Eng'' @ '' created successfully''))),
         [CreateSpace \<lparr>cs_name = ''Eng'', cs_multiple_assignees = Some True,
                        cs_features = None\<rparr>,
          UpdateSpace ''s100''
            \<lparr>us_name = Some ''Eng'', us_color = Some ''#ff0000'', us_private = None,
             us_admin_can_manage = None, us_multiple_assignees = None, us_features = None\<rparr>])"
    using B
    by (simp add: sample_create_space_def late_name_env_def sample_env_def mk_space_def
        truthy_str_def convertFeaturesToAPI_def)
  have c: "handleCreateSpace recording_env sample_create_space []
      = (Inr (Response (SpaceCreated ''s100'' ''Old'' (Some False) None
                ''https://app.clickup.com/9001/v/s/s100''
                (''Space '' @ quoted ''Old'' @ '' created successfully''))),
         [CreateSpace \<lparr>cs_name = ''Eng'', cs_multiple_assignees = Some True,
                        cs_features = None\<rparr>,
          UpdateSpace ''s100''
            \<lparr>us_name = None, us_color = Some ''#ff0000'', us_private = None,
             us_admin_can_manage = None, us_multiple_assignees = None, us_features = None\<rparr>,
          GetSpace ''s100''])"
    using C
    by (simp add: sample_create_space_def recording_env_def sample_env_def mk_space_def
        truthy_str_def convertFeaturesToAPI_def)
  have d: "handleCreateSpace recording_env (sample_create_space\<lparr>csp_color := None\<rparr>) []
      = (Inr (Response (SpaceCreated ''s100'' ''Eng'' (Some False) None
                ''https://app.clickup.com/9001/v/s/s100''
                (''Space '' @ quoted ''Eng'' @ '' created successfully''))),
         [CreateSpace \<lparr>cs_name = ''Eng'', cs_multiple_assignees = Some True,
                        cs_features = None\<rparr>])"
    using D
    by (simp add: sample_create_space_def recording_env_def sample_env_def mk_space_def
        truthy_str_def convertFeaturesToAPI_def)
  from nm(1) ne h1 h2 h3 a b c d show ?thesis
    by blast
qed

section \<open>Failures of the remote system\<close>






section \<open>Mutations and the next name resolution\<close>













end
